theory Spec2Isabelle
  imports Main "HOL-Library.Word" "HOL-Library.Stream" "HOL-Library.Multiset"
begin

section \<open>Go strings\<close>

text \<open>
  A Go string is a sequence of bytes; it is modelled as a \<open>string\<close> (a list of 8-bit
  characters). The functions of package \<open>strings\<close> that the sources call are written
  out below on bytes. \<open>strings.ToLower\<close> maps the ASCII letters \<open>A\<close> .. \<open>Z\<close> to
  \<open>a\<close> .. \<open>z\<close>; bytes from 0x80 on are left as they are (Go applies the Unicode case
  tables to them, which are outside this development).
\<close>

definition upperLetters :: string where
  "upperLetters = ''ABCDEFGHIJKLMNOPQRSTUVWXYZ''"

definition lowerLetters :: string where
  "lowerLetters = ''abcdefghijklmnopqrstuvwxyz''"

definition toLowerChar :: "char \<Rightarrow> char" where
  "toLowerChar c = (case map_of (zip upperLetters lowerLetters) c of Some l \<Rightarrow> l | None \<Rightarrow> c)"

definition ToLower :: "string \<Rightarrow> string" where
  "ToLower s = map toLowerChar s"

text \<open>\<open>strings.HasPrefix(s, prefix)\<close>.\<close>

definition HasPrefix :: "string \<Rightarrow> string \<Rightarrow> bool" where
  "HasPrefix s p = (take (length p) s = p)"

text \<open>\<open>strings.Index(s, sep)\<close>: the position of the first occurrence, \<open>None\<close> for -1.\<close>

fun Index :: "string \<Rightarrow> string \<Rightarrow> nat option" where
  "Index [] sep = (if sep = [] then Some 0 else None)"
| "Index (c # cs) sep =
     (if HasPrefix (c # cs) sep then Some 0 else map_option Suc (Index cs sep))"

lemma Index_nonempty: "sep \<noteq> [] \<Longrightarrow> Index s sep = Some m \<Longrightarrow> s \<noteq> []"
  by (cases s) auto

lemma Index_drop_shorter:
  assumes "sep \<noteq> []" and "Index s sep = Some m"
  shows "length (drop (m + length sep) s) < length s"
proof -
  from assms have "0 < length s" using Index_nonempty by blast
  moreover from assms have "0 < m + length sep" by simp
  ultimately show ?thesis by simp
qed

text \<open>
  \<open>strings.Split(s, sep)\<close> cuts at the successive first occurrences of \<open>sep\<close>; with an
  empty separator it explodes the string (into bytes here, into UTF-8 sequences in Go).
\<close>

function Split :: "string \<Rightarrow> string \<Rightarrow> string list" where
  "Split s sep =
     (if sep = [] then map (\<lambda>c. [c]) s
      else case Index s sep of
             None \<Rightarrow> [s]
           | Some m \<Rightarrow> take m s # Split (drop (m + length sep) s) sep)"
  by pat_completeness auto
termination
  by (relation "measure (\<lambda>(s, sep). length s)") (auto dest: Index_drop_shorter)

declare Split.simps [simp del]

text \<open>\<open>strings.SplitN(s, sep, 2)\<close>: at most two pieces, cut at the first occurrence.\<close>

definition SplitN2 :: "string \<Rightarrow> string \<Rightarrow> string list" where
  "SplitN2 s sep =
     (if sep = [] then (case s of [] \<Rightarrow> [] | [c] \<Rightarrow> [[c]] | c # cs \<Rightarrow> [[c], cs])
      else case Index s sep of
             None \<Rightarrow> [s]
           | Some m \<Rightarrow> [take m s, drop (m + length sep) s])"

text \<open>\<open>strings.Join(elems, sep)\<close>.\<close>

fun Join :: "string list \<Rightarrow> string \<Rightarrow> string" where
  "Join [] sep = []"
| "Join [x] sep = x"
| "Join (x # y # ys) sep = x @ sep @ Join (y # ys) sep"

text \<open>\<open>strings.Replace(s, old, new, -1)\<close> for a non-empty \<open>old\<close>: every piece between
  the successive first occurrences of \<open>old\<close> is kept and \<open>new\<close> is put between them.\<close>

definition ReplaceAll :: "string \<Rightarrow> string \<Rightarrow> string \<Rightarrow> string" where
  "ReplaceAll s old new = Join (Split s old) new"

section \<open>Regular expressions\<close>

text \<open>
  The two taint parsers compile the pattern
  \<^verbatim>\<open>(.*):(?:NoSchedule|NoExecute|PreferNoSchedule)\<close> and ask \<open>MatchString\<close>, which
  succeeds when some substring of the subject matches: the pattern is not anchored.
  The fragment of Go's syntax that the pattern uses is a literal, \<open>.*\<close>, alternation
  and sequence; groups do not matter to \<open>MatchString\<close>. The dot matches every byte but
  the line feed.
\<close>

datatype regexp = Lit string | AnyStar | Alt "regexp list" | Seq "regexp list"

text \<open>\<open>dotStar s\<close>: what can remain of \<open>s\<close> after \<open>.*\<close> has matched a prefix of it.\<close>

fun dotStar :: "string \<Rightarrow> string list" where
  "dotStar [] = [[]]"
| "dotStar (c # cs) = (c # cs) # (if c = CHR 0x0A then [] else dotStar cs)"

text \<open>\<open>remainders r s\<close>: what can remain of \<open>s\<close> after \<open>r\<close> has matched a prefix of it.\<close>

fun remainders :: "regexp \<Rightarrow> string \<Rightarrow> string list" where
  "remainders (Lit l) s = (if HasPrefix s l then [drop (length l) s] else [])"
| "remainders AnyStar s = dotStar s"
| "remainders (Alt rs) s = concat (map (\<lambda>r. remainders r s) rs)"
| "remainders (Seq []) s = [s]"
| "remainders (Seq (r # rs)) s = concat (map (remainders (Seq rs)) (remainders r s))"

fun tails :: "string \<Rightarrow> string list" where
  "tails [] = [[]]"
| "tails (c # cs) = (c # cs) # tails cs"

definition MatchString :: "regexp \<Rightarrow> string \<Rightarrow> bool" where
  "MatchString r s = list_ex (\<lambda>t. remainders r t \<noteq> []) (tails s)"

definition taintRegexp :: regexp where
  "taintRegexp =
     Seq [AnyStar, Lit '':'', Alt [Lit ''NoSchedule'', Lit ''NoExecute'', Lit ''PreferNoSchedule'']]"

section \<open>Azure: taints of a node template\<close>

text \<open>\<open>apiv1.Taint\<close>, with the fields the template code fills (\<open>TimeAdded\<close> stays nil).\<close>

record Taint =
  Key :: string
  Value :: string
  Effect :: string

definition zeroTaint :: Taint where
  "zeroTaint = \<lparr>Key = [], Value = [], Effect = []\<rparr>"

text \<open>
  \<open>constructTaintFromString\<close>. The index expressions \<open>taintSplit[0]\<close>, \<open>taintSplit[1]\<close>
  follow the length test; \<open>values[1]\<close> follows the match, which needs a colon in
  \<open>taintValue\<close> (lemma \<open>SplitN2_taintValue\<close> below), so none of them is out of range.
\<close>

definition constructTaintFromString :: "string \<Rightarrow> bool \<times> Taint" where
  "constructTaintFromString taintString =
     (let taintSplit = Split taintString ''=''
      in if length taintSplit \<noteq> 2 then (False, zeroTaint)
         else
           let taintKey = taintSplit ! 0;
               taintValue = taintSplit ! 1
           in if \<not> MatchString taintRegexp taintValue then (False, zeroTaint)
              else
                let values = SplitN2 taintValue '':''
                in (True, \<lparr>Key = taintKey, Value = values ! 0, Effect = values ! 1\<rparr>))"

text \<open>
  \<open>extractTaintsFromSpecString\<close>: the loop over the comma-separated pieces, with the
  \<open>dedupMap\<close> of the pieces seen so far and the taints collected so far.
\<close>

fun specStringLoop :: "string list \<Rightarrow> (string \<rightharpoonup> unit) \<Rightarrow> Taint list \<Rightarrow> Taint list" where
  "specStringLoop [] dedupMap taints = taints"
| "specStringLoop (split # splits) dedupMap taints =
     (if dedupMap split \<noteq> None then specStringLoop splits dedupMap taints
      else
        let dedupMap' = dedupMap(split \<mapsto> ());
            (valid, taint) = constructTaintFromString split
        in specStringLoop splits dedupMap' (if valid then taints @ [taint] else taints))"

definition extractTaintsFromSpecString :: "string \<Rightarrow> Taint list" where
  "extractTaintsFromSpecString taintsString =
     specStringLoop (Split taintsString '','') Map.empty []"

text \<open>\<open>buildNodeTaintsForVMPool\<close>.\<close>

fun buildNodeTaintsForVMPool :: "string list \<Rightarrow> Taint list" where
  "buildNodeTaintsForVMPool [] = []"
| "buildNodeTaintsForVMPool (taintStr # taintStrs) =
     (let (valid, taint) = constructTaintFromString taintStr
      in (if valid then [taint] else []) @ buildNodeTaintsForVMPool taintStrs)"

text \<open>
  The pieces of a list in the order of their first occurrence, every later repetition
  dropped: the reading of ``only the first occurrence of each segment kept''.
\<close>

fun firstOccurrences :: "string list \<Rightarrow> string list" where
  "firstOccurrences [] = []"
| "firstOccurrences (x # xs) = x # firstOccurrences (filter (\<lambda>y. y \<noteq> x) xs)"

section \<open>Errors\<close>

text \<open>A Go \<open>error\<close> built by \<open>fmt.Errorf\<close>, kept as its message.\<close>

datatype error = Errorf string

section \<open>OCI SDK: ListAppCatalogListingResourceVersionsRequest\<close>







section \<open>OCI SDK: the lifecycle state enum of a block volume replica\<close>

text \<open>\<open>BlockVolumeReplicaLifecycleStateEnum\<close> is a Go type whose underlying type is
  string.\<close>

type_synonym BlockVolumeReplicaLifecycleStateEnum = string

definition BlockVolumeReplicaLifecycleStateProvisioning :: BlockVolumeReplicaLifecycleStateEnum where
  "BlockVolumeReplicaLifecycleStateProvisioning = ''PROVISIONING''"
definition BlockVolumeReplicaLifecycleStateAvailable :: BlockVolumeReplicaLifecycleStateEnum where
  "BlockVolumeReplicaLifecycleStateAvailable = ''AVAILABLE''"
definition BlockVolumeReplicaLifecycleStateActivating :: BlockVolumeReplicaLifecycleStateEnum where
  "BlockVolumeReplicaLifecycleStateActivating = ''ACTIVATING''"
definition BlockVolumeReplicaLifecycleStateTerminating :: BlockVolumeReplicaLifecycleStateEnum where
  "BlockVolumeReplicaLifecycleStateTerminating = ''TERMINATING''"
definition BlockVolumeReplicaLifecycleStateTerminated :: BlockVolumeReplicaLifecycleStateEnum where
  "BlockVolumeReplicaLifecycleStateTerminated = ''TERMINATED''"
definition BlockVolumeReplicaLifecycleStateFaulty :: BlockVolumeReplicaLifecycleStateEnum where
  "BlockVolumeReplicaLifecycleStateFaulty = ''FAULTY''"

text \<open>The map literal, as the list of its entries.\<close>

definition mappingBlockVolumeReplicaLifecycleStateEnumLowerCase ::
  "(string \<times> BlockVolumeReplicaLifecycleStateEnum) list" where
  "mappingBlockVolumeReplicaLifecycleStateEnumLowerCase =
     [(''provisioning'', BlockVolumeReplicaLifecycleStateProvisioning),
      (''available'', BlockVolumeReplicaLifecycleStateAvailable),
      (''activating'', BlockVolumeReplicaLifecycleStateActivating),
      (''terminating'', BlockVolumeReplicaLifecycleStateTerminating),
      (''terminated'', BlockVolumeReplicaLifecycleStateTerminated),
      (''faulty'', BlockVolumeReplicaLifecycleStateFaulty)]"

definition GetBlockVolumeReplicaLifecycleStateEnumStringValues :: "string list" where
  "GetBlockVolumeReplicaLifecycleStateEnumStringValues =
     [''PROVISIONING'', ''AVAILABLE'', ''ACTIVATING'', ''TERMINATING'', ''TERMINATED'',
      ''FAULTY'']"

text \<open>\<open>enum, ok := m[key]\<close>: a missing key gives the zero value, the empty string, and
  \<open>false\<close>.\<close>

definition lookup_ok :: "(string \<times> string) list \<Rightarrow> string \<Rightarrow> string \<times> bool" where
  "lookup_ok m k = (case map_of m k of None \<Rightarrow> ([], False) | Some e \<Rightarrow> (e, True))"

definition GetMappingBlockVolumeReplicaLifecycleStateEnum ::
  "string \<Rightarrow> BlockVolumeReplicaLifecycleStateEnum \<times> bool" where
  "GetMappingBlockVolumeReplicaLifecycleStateEnum val =
     lookup_ok mappingBlockVolumeReplicaLifecycleStateEnumLowerCase (ToLower val)"

section \<open>OCI SDK: validation of the request and the HTTP request\<close>







section \<open>OCI SDK: a request builder for concrete inputs\<close>


section \<open>Azure: the data of a node template\<close>

text \<open>\<open>to.String\<close>: the string a pointer points to, the empty string for nil.\<close>

definition to_String :: "string option \<Rightarrow> string" where
  "to_String p = (case p of None \<Rightarrow> [] | Some s \<Rightarrow> s)"

text \<open>
  A Go map from strings whose entries are only looked up and stored is a partial
  function. The tags of a scale set, \<open>map[string]*string\<close>, are ranged over: they are the
  list of their entries, in the order in which \<open>range\<close> visits them (Go does not fix that
  order; the list stands for any), a nil pointer being \<open>None\<close>. A nil map and an empty
  map behave alike under \<open>range\<close> and \<open>len\<close>; both are the empty list.
\<close>

type_synonym labels = "string \<rightharpoonup> string"
type_synonym tags = "(string \<times> string option) list"

text \<open>The fields of the compute SDK's scale set that the template code reads (the field
  names of the scale set carry the prefix \<open>vmss_\<close>, those of its SKU \<open>sku_\<close>).\<close>

record DiffDiskSettings =
  Option :: string

record ManagedDiskParameters =
  StorageAccountType :: string

record VirtualMachineScaleSetOSDisk =
  DiffDiskSettings :: "DiffDiskSettings option"
  DiskSizeGB :: "32 word option"
  ManagedDisk :: "ManagedDiskParameters option"

record OsProfile =
  WindowsConfiguration :: "unit option"

record StorageProfile =
  OsDisk :: "VirtualMachineScaleSetOSDisk option"

record VirtualMachineProfile =
  OsProfile :: "OsProfile option"
  StorageProfile :: "StorageProfile option"

record Sku =
  sku_Name :: "string option"

record VirtualMachineScaleSet =
  vmss_Name :: "string option"
  vmss_Sku :: "Sku option"
  vmss_Location :: "string option"
  vmss_Zones :: "string list option"
  vmss_Tags :: tags
  vmss_VirtualMachineProfile :: "VirtualMachineProfile option"

record VMPoolNodeTemplate =
  AgentPoolName :: string
  Taints :: "Taint list"
  vmpool_Labels :: tags
  OSDiskType :: "string option"

record VMSSNodeTemplate =
  InputLabels :: labels
  InputTaints :: string
  Tags :: tags
  OSDisk :: "VirtualMachineScaleSetOSDisk option"

record NodeTemplate =
  SkuName :: string
  InstanceOS :: string
  Location :: string
  Zones :: "string list"
  VMPoolNodeTemplate :: "VMPoolNodeTemplate option"
  VMSSNodeTemplate :: "VMSSNodeTemplate option"

definition zeroNodeTemplate :: NodeTemplate where
  "zeroNodeTemplate = \<lparr>SkuName = [], InstanceOS = [], Location = [], Zones = [],
     VMPoolNodeTemplate = None, VMSSNodeTemplate = None\<rparr>"

text \<open>\<open>InstanceType\<close>: the three \<open>int64\<close> fields that are read.\<close>

record InstanceType =
  VCPU :: "64 word"
  GPU :: "64 word"
  MemoryMb :: "64 word"

text \<open>
  \<open>resource.Quantity\<close>: an \<open>int64\<close> amount with a decimal scale and a format.
  \<open>resource.NewQuantity(v, f)\<close> has scale 0.
\<close>

datatype Format = DecimalExponent | BinarySI | DecimalSI

datatype Quantity = Quantity (amount: "64 word") (scale: int) (format: Format)

definition NewQuantity :: "64 word \<Rightarrow> Format \<Rightarrow> Quantity" where
  "NewQuantity v f = Quantity v 0 f"

type_synonym ResourceList = "string \<rightharpoonup> Quantity"

datatype NodeCondition = NodeCondition (condition_Type: string) (condition_Status: string)

text \<open>
  \<open>apiv1.Node\<close>, with the fields that the template code fills. \<open>Status.Capacity\<close> and
  \<open>Status.Allocatable\<close> are Go maps, that is references to map objects: the node holds
  the address of each (\<open>None\<close> for the nil map), and the objects live in the heap below.
  The assignment \<open>node.Status.Allocatable = node.Status.Capacity\<close> copies the reference.
\<close>

record Node =
  Name :: string
  SelfLink :: string
  Labels :: labels
  Spec_Taints :: "Taint list"
  Status_Capacity :: nat
  Status_Allocatable :: "nat option"
  Status_Conditions :: "NodeCondition list"

text \<open>
  The state outside the arguments: the heap of \<open>ResourceList\<close> map objects, an address
  being an index, and the source of package \<open>math/rand\<close>, a stream of draws.
  \<open>rand.Int63()\<close> takes the next draw into the range of a non-negative \<open>int64\<close>,
  \<open>rand.Intn(n)\<close> into \<open>[0, n)\<close>.
\<close>

record world =
  heap :: "ResourceList list"
  rand :: "nat stream"

definition Int63 :: "nat stream \<Rightarrow> nat \<times> nat stream" where
  "Int63 g = (shd g mod 2 ^ 63, stl g)"

definition Intn :: "nat \<Rightarrow> nat stream \<Rightarrow> nat \<times> nat stream" where
  "Intn n g = (shd g mod n, stl g)"

definition heapPut :: "ResourceList list \<Rightarrow> nat \<Rightarrow> string \<Rightarrow> Quantity \<Rightarrow> ResourceList list" where
  "heapPut h a k v = list_update h a ((h ! a)(k \<mapsto> v))"

text \<open>What a node's two resource lists hold in a state.\<close>

definition capacityOf :: "world \<Rightarrow> Node \<Rightarrow> ResourceList" where
  "capacityOf w node = heap w ! Status_Capacity node"

definition allocatableOf :: "world \<Rightarrow> Node \<Rightarrow> ResourceList" where
  "allocatableOf w node =
     (case Status_Allocatable node of None \<Rightarrow> Map.empty | Some a \<Rightarrow> heap w ! a)"

text \<open>The verb \<open>%d\<close> of \<open>fmt.Sprintf\<close> on a non-negative integer.\<close>

definition digitChar :: "nat \<Rightarrow> char" where
  "digitChar d = ''0123456789'' ! d"

fun itoa :: "nat \<Rightarrow> string" where
  "itoa n = (if n < 10 then [digitChar n] else itoa (n div 10) @ [digitChar (n mod 10)])"

declare itoa.simps [simp del]

text \<open>
  The outcome of \<open>buildNodeFromTemplate\<close>: a node with a nil error, a nil node with an
  error, or a run-time panic. The functions below it that return no error give an option,
  \<open>None\<close> being the panic of a nil pointer dereference.
\<close>

datatype 'a result = Ok 'a | Err error | Panic

subsection \<open>What the package takes from elsewhere\<close>

text \<open>
  Constants and functions of the autoscaler that the template code uses and that are not
  among the sources at hand are parameters, gathered in one record. The dynamic lookup
  \<open>GetInstanceTypeDynamically(template, manager.azureCache)\<close> is a function of the
  template, for the manager given. \<open>cloudprovider.BuildReadyConditions()\<close> is the list it
  returns.
\<close>

record package_env =
  nodeLabelTagName :: string
  nodeTaintTagName :: string
  nodeResourcesTagName :: string
  GPULabel :: string
  legacyGPULabel :: string
  DefaultArch :: string
  DefaultOS :: string
  GetInstanceTypeStatically :: "NodeTemplate \<Rightarrow> error + InstanceType"
  GetInstanceTypeDynamically :: "NodeTemplate \<Rightarrow> error + InstanceType"
  isNvidiaEnabledSKU :: "string \<Rightarrow> bool"
  JoinStringMaps :: "labels \<Rightarrow> labels \<Rightarrow> labels"
  BuildReadyConditions :: "NodeCondition list"
  ParseQuantity :: "string \<Rightarrow> error + Quantity"

text \<open>The label and resource names of the Kubernetes API packages, and the constants of
  the file itself.\<close>

definition LabelArch :: string where "LabelArch = ''beta.kubernetes.io/arch''"
definition LabelArchStable :: string where "LabelArchStable = ''kubernetes.io/arch''"
definition LabelOS :: string where "LabelOS = ''beta.kubernetes.io/os''"
definition LabelOSStable :: string where "LabelOSStable = ''kubernetes.io/os''"
definition LabelInstanceType :: string where
  "LabelInstanceType = ''beta.kubernetes.io/instance-type''"
definition LabelInstanceTypeStable :: string where
  "LabelInstanceTypeStable = ''node.kubernetes.io/instance-type''"
definition LabelZoneRegion :: string where
  "LabelZoneRegion = ''failure-domain.beta.kubernetes.io/region''"
definition LabelTopologyRegion :: string where
  "LabelTopologyRegion = ''topology.kubernetes.io/region''"
definition LabelZoneFailureDomain :: string where
  "LabelZoneFailureDomain = ''failure-domain.beta.kubernetes.io/zone''"
definition LabelTopologyZone :: string where
  "LabelTopologyZone = ''topology.kubernetes.io/zone''"
definition LabelHostname :: string where "LabelHostname = ''kubernetes.io/hostname''"

definition ResourcePods :: string where "ResourcePods = ''pods''"
definition ResourceCPU :: string where "ResourceCPU = ''cpu''"
definition ResourceMemory :: string where "ResourceMemory = ''memory''"
definition ResourceEphemeralStorage :: string where
  "ResourceEphemeralStorage = ''ephemeral-storage''"
definition ResourceNvidiaGPU :: string where "ResourceNvidiaGPU = ''nvidia.com/gpu''"

definition AKSLabelPrefixValue :: string where "AKSLabelPrefixValue = ''kubernetes.azure.com''"
definition AKSLabelKeyPrefixValue :: string where
  "AKSLabelKeyPrefixValue = AKSLabelPrefixValue @ ''/''"
definition azureDiskTopologyKey :: string where
  "azureDiskTopologyKey = ''topology.disk.csi.azure.com/zone''"
definition xilinxFpgaResourceName :: string where
  "xilinxFpgaResourceName = ''xilinx.com/fpga-xilinx_u250_gen3x16_xdma_shell_2_1-0''"
definition legacyPoolNameTag :: string where "legacyPoolNameTag = ''poolName''"
definition poolNameTag :: string where "poolNameTag = ''aks-managed-poolName''"
definition legacyAgentPoolNodeLabelKey :: string where
  "legacyAgentPoolNodeLabelKey = ''agentpool''"
definition agentPoolNodeLabelKey :: string where
  "agentPoolNodeLabelKey = AKSLabelKeyPrefixValue @ ''agentpool''"
definition legacyStorageProfileNodeLabelKey :: string where
  "legacyStorageProfileNodeLabelKey = ''storageprofile''"
definition storageProfileNodeLabelKey :: string where
  "storageProfileNodeLabelKey = AKSLabelKeyPrefixValue @ ''storageprofile''"
definition legacyStorageTierNodeLabelKey :: string where
  "legacyStorageTierNodeLabelKey = ''storagetier''"
definition storageTierNodeLabelKey :: string where
  "storageTierNodeLabelKey = AKSLabelKeyPrefixValue @ ''storagetier''"

text \<open>\<open>compute.Local\<close>, the one value of \<open>DiffDiskOptions\<close>.\<close>

definition compute_Local :: string where "compute_Local = ''Local''"

text \<open>\<open>m[k]\<close> on a \<open>map[string]string\<close>: the empty string for a missing key.\<close>

definition at :: "labels \<Rightarrow> string \<Rightarrow> string" where
  "at m k = (case m k of None \<Rightarrow> [] | Some v \<Rightarrow> v)"

section \<open>Azure: building the template and the node\<close>

text \<open>\<open>buildNodeTemplateFromVMSS\<close>.\<close>

definition buildNodeTemplateFromVMSS ::
  "package_env \<Rightarrow> VirtualMachineScaleSet \<Rightarrow> labels \<Rightarrow> string \<Rightarrow> error + NodeTemplate" where
  "buildNodeTemplateFromVMSS E vmss inputLabels inputTaints =
     (let instanceOS =
            (case vmss_VirtualMachineProfile vmss of
               None \<Rightarrow> DefaultOS E
             | Some profile \<Rightarrow>
                 (case OsProfile profile of
                    None \<Rightarrow> DefaultOS E
                  | Some os \<Rightarrow>
                      (if WindowsConfiguration os \<noteq> None then ''windows'' else DefaultOS E)));
          osDisk =
            (case vmss_VirtualMachineProfile vmss of
               None \<Rightarrow> None
             | Some profile \<Rightarrow>
                 (case StorageProfile profile of None \<Rightarrow> None | Some sp \<Rightarrow> OsDisk sp))
      in if vmss_Sku vmss = None \<or> sku_Name (the (vmss_Sku vmss)) = None
         then Inl (Errorf (''VMSS '' @ to_String (vmss_Name vmss) @ '' has no SKU''))
         else if vmss_Location vmss = None
         then Inl (Errorf (''VMSS '' @ to_String (vmss_Name vmss) @ '' has no location''))
         else
           let zones = (case vmss_Zones vmss of None \<Rightarrow> [] | Some z \<Rightarrow> z)
           in Inr \<lparr>SkuName = the (sku_Name (the (vmss_Sku vmss))),
                   InstanceOS = instanceOS,
                   Location = the (vmss_Location vmss),
                   Zones = zones,
                   VMPoolNodeTemplate = None,
                   VMSSNodeTemplate =
                     Some \<lparr>InputLabels = inputLabels, InputTaints = inputTaints,
                           Tags = vmss_Tags vmss, OSDisk = osDisk\<rparr>\<rparr>)"

text \<open>
  \<open>buildGenericLabels\<close>. With zones it draws the index of the zone from \<open>math/rand\<close>, so
  it takes the source and returns it advanced.
\<close>

definition buildGenericLabels ::
  "package_env \<Rightarrow> NodeTemplate \<Rightarrow> string \<Rightarrow> nat stream \<Rightarrow> labels \<times> nat stream" where
  "buildGenericLabels E template nodeName g =
     (let result = Map.empty;
          result = result(LabelArch \<mapsto> DefaultArch E);
          result = result(LabelArchStable \<mapsto> DefaultArch E);
          result = result(LabelOS \<mapsto> InstanceOS template);
          result = result(LabelOSStable \<mapsto> InstanceOS template);
          result = result(LabelInstanceType \<mapsto> SkuName template);
          result = result(LabelInstanceTypeStable \<mapsto> SkuName template);
          result = result(LabelZoneRegion \<mapsto> ToLower (Location template));
          result = result(LabelTopologyRegion \<mapsto> ToLower (Location template))
      in if length (Zones template) > 0
         then
           let failureDomains = map (\<lambda>v. ToLower (Location template) @ ''-'' @ v) (Zones template);
               (i, g') = Intn (length failureDomains) g;
               randomZone = failureDomains ! i;
               result = result(LabelZoneFailureDomain \<mapsto> randomZone);
               result = result(LabelTopologyZone \<mapsto> randomZone);
               result = result(azureDiskTopologyKey \<mapsto> randomZone)
           in (result(LabelHostname \<mapsto> nodeName), g')
         else
           let result = result(LabelZoneFailureDomain \<mapsto> ''0'');
               result = result(LabelTopologyZone \<mapsto> ''0'');
               result = result(azureDiskTopologyKey \<mapsto> [])
           in (result(LabelHostname \<mapsto> nodeName), g))"

text \<open>\<open>extractLabelsFromTags\<close>: \<open>*tagValue\<close> is evaluated for a tag that names a label.\<close>

fun extractLabelsFromTagsLoop :: "package_env \<Rightarrow> tags \<Rightarrow> labels \<Rightarrow> labels option" where
  "extractLabelsFromTagsLoop E [] result = Some result"
| "extractLabelsFromTagsLoop E ((tagName, tagValue) # rest) result =
     (let splits = Split tagName (nodeLabelTagName E)
      in if length splits > 1
         then
           let label = ReplaceAll (splits ! 1) ''_'' ''/'';
               label = ReplaceAll label ''~2'' ''_''
           in if label \<noteq> []
              then (case tagValue of
                      None \<Rightarrow> None
                    | Some v \<Rightarrow> extractLabelsFromTagsLoop E rest (result(label \<mapsto> v)))
              else extractLabelsFromTagsLoop E rest result
         else extractLabelsFromTagsLoop E rest result)"

definition extractLabelsFromTags :: "package_env \<Rightarrow> tags \<Rightarrow> labels option" where
  "extractLabelsFromTags E tags = extractLabelsFromTagsLoop E tags Map.empty"

text \<open>\<open>extractTaintsFromTags\<close>: \<open>*tagValue\<close> is evaluated for every tag.\<close>

fun extractTaintsFromTagsLoop :: "package_env \<Rightarrow> tags \<Rightarrow> Taint list \<Rightarrow> Taint list option" where
  "extractTaintsFromTagsLoop E [] taints = Some taints"
| "extractTaintsFromTagsLoop E ((tagName, tagValue) # rest) taints =
     (case tagValue of
        None \<Rightarrow> None
      | Some v \<Rightarrow>
          if MatchString taintRegexp v
          then
            let splits = Split tagName (nodeTaintTagName E)
            in if length splits > 1
               then
                 let values = SplitN2 v '':''
                 in if length values > 1
                    then
                      let taintKey = ReplaceAll (splits ! 1) ''_'' ''/'';
                          taintKey = ReplaceAll taintKey ''~2'' ''_''
                      in extractTaintsFromTagsLoop E rest
                           (taints @ [\<lparr>Key = taintKey, Value = values ! 0, Effect = values ! 1\<rparr>])
                    else extractTaintsFromTagsLoop E rest taints
               else extractTaintsFromTagsLoop E rest taints
          else extractTaintsFromTagsLoop E rest taints)"

definition extractTaintsFromTags :: "package_env \<Rightarrow> tags \<Rightarrow> Taint list option" where
  "extractTaintsFromTags E tags = extractTaintsFromTagsLoop E tags []"

text \<open>\<open>extractAllocatableResourcesFromScaleSet\<close>: \<open>*tagValue\<close> is evaluated for a tag
  that names a resource.\<close>

fun extractAllocatableResourcesLoop ::
  "package_env \<Rightarrow> tags \<Rightarrow> ResourceList \<Rightarrow> ResourceList option" where
  "extractAllocatableResourcesLoop E [] resources = Some resources"
| "extractAllocatableResourcesLoop E ((tagName, tagValue) # rest) resources =
     (let resourceName = Split tagName (nodeResourcesTagName E)
      in if length resourceName < 2 \<or> resourceName ! 1 = []
         then extractAllocatableResourcesLoop E rest resources
         else
           let normalizedResourceName = ReplaceAll (resourceName ! 1) ''_'' ''/'';
               normalizedResourceName = ReplaceAll normalizedResourceName ''~2'' ''/''
           in case tagValue of
                None \<Rightarrow> None
              | Some v \<Rightarrow>
                  (case ParseQuantity E v of
                     Inl err \<Rightarrow> extractAllocatableResourcesLoop E rest resources
                   | Inr quantity \<Rightarrow>
                       extractAllocatableResourcesLoop E rest
                         (resources(normalizedResourceName \<mapsto> quantity))))"

definition extractAllocatableResourcesFromScaleSet ::
  "package_env \<Rightarrow> tags \<Rightarrow> ResourceList option" where
  "extractAllocatableResourcesFromScaleSet E tags =
     extractAllocatableResourcesLoop E tags Map.empty"

text \<open>The first loop of \<open>processVMSSTemplate\<close>: every tag becomes a label of the node, a
  nil value the empty string.\<close>

fun tagsToLabels :: "tags \<Rightarrow> labels \<Rightarrow> labels" where
  "tagsToLabels [] nodeLabels = nodeLabels"
| "tagsToLabels ((k, v) # rest) nodeLabels =
     tagsToLabels rest (nodeLabels(k \<mapsto> (case v of Some s \<Rightarrow> s | None \<Rightarrow> [])))"

text \<open>The block of \<open>processVMSSTemplate\<close> under \<open>if enableLabelPrediction\<close>.\<close>

definition predictLabels ::
  "package_env \<Rightarrow> NodeTemplate \<Rightarrow> VMSSNodeTemplate \<Rightarrow> labels \<Rightarrow> labels \<Rightarrow> labels" where
  "predictLabels E template vt nodeLabels labels =
     (let labels =
            (if at nodeLabels legacyPoolNameTag \<noteq> []
             then labels(legacyAgentPoolNodeLabelKey \<mapsto> at nodeLabels legacyPoolNameTag,
                         agentPoolNodeLabelKey \<mapsto> at nodeLabels legacyPoolNameTag)
             else labels);
          labels =
            (if at nodeLabels poolNameTag \<noteq> []
             then labels(legacyAgentPoolNodeLabelKey \<mapsto> at nodeLabels poolNameTag,
                         agentPoolNodeLabelKey \<mapsto> at nodeLabels poolNameTag)
             else labels);
          labels =
            (case OSDisk vt of
               None \<Rightarrow> labels
             | Some disk \<Rightarrow>
                 let labels =
                       (if DiffDiskSettings disk \<noteq> None
                           \<and> Option (the (DiffDiskSettings disk)) = compute_Local
                        then labels(legacyStorageProfileNodeLabelKey \<mapsto> ''ephemeral'',
                                    storageProfileNodeLabelKey \<mapsto> ''ephemeral'')
                        else labels(legacyStorageProfileNodeLabelKey \<mapsto> ''managed'',
                                    storageProfileNodeLabelKey \<mapsto> ''managed''))
                 in (case ManagedDisk disk of
                       None \<Rightarrow> labels
                     | Some md \<Rightarrow>
                         labels(legacyStorageTierNodeLabelKey \<mapsto> StorageAccountType md,
                                storageTierNodeLabelKey \<mapsto> StorageAccountType md)))
      in if isNvidiaEnabledSKU E (SkuName template)
         then labels(GPULabel E \<mapsto> ''nvidia'', legacyGPULabel E \<mapsto> ''nvidia'')
         else labels)"

text \<open>
  \<open>processVMSSTemplate\<close>. The node is passed and returned by value; its capacity map is
  written through the reference the node holds. \<open>int\<close> has 64 bits on the platforms the
  autoscaler is built for, so \<open>int(*DiskSizeGB)\<close> is the sign extension of the \<open>int32\<close>.
  The label maps are values here: when \<open>InputLabels\<close> is not empty the predicted labels
  are also stored into that map of the template, which the caller can see afterwards and
  which is not part of the result.
\<close>

definition processVMSSTemplate ::
  "package_env \<Rightarrow> NodeTemplate \<Rightarrow> string \<Rightarrow> Node \<Rightarrow> bool \<Rightarrow> world \<Rightarrow> (Node \<times> world) option" where
  "processVMSSTemplate E template nodeName node enableLabelPrediction w =
     (case VMSSNodeTemplate template of
        None \<Rightarrow> None
      | Some vt \<Rightarrow>
          (let nodeLabels = tagsToLabels (Tags vt) (Labels node);
               (generic, g) = buildGenericLabels E template nodeName (rand w);
               nodeLabels = JoinStringMaps E nodeLabels generic
           in (case (if InputLabels vt \<noteq> Map.empty then Some (InputLabels vt)
                     else extractLabelsFromTags E (Tags vt)) of
                 None \<Rightarrow> None
               | Some labels \<Rightarrow>
                   (let labels =
                          (if enableLabelPrediction
                           then predictLabels E template vt nodeLabels labels
                           else labels);
                        h = (if OSDisk vt \<noteq> None \<and> DiskSizeGB (the (OSDisk vt)) \<noteq> None
                             then heapPut (heap w) (Status_Capacity node) ResourceEphemeralStorage
                                    (NewQuantity
                                       (scast (the (DiskSizeGB (the (OSDisk vt))))
                                          * 1024 * 1024 * 1024)
                                       DecimalSI)
                             else heap w)
                    in (case extractAllocatableResourcesFromScaleSet E (Tags vt) of
                          None \<Rightarrow> None
                        | Some resourcesFromTags \<Rightarrow>
                            (let h = list_update h (Status_Capacity node)
                                       ((h ! Status_Capacity node) ++ resourcesFromTags);
                                 nodeLabels = JoinStringMaps E nodeLabels labels
                             in (case (if InputTaints vt \<noteq> []
                                       then Some (extractTaintsFromSpecString (InputTaints vt))
                                       else extractTaintsFromTags E (Tags vt)) of
                                   None \<Rightarrow> None
                                 | Some taints \<Rightarrow>
                                     Some (node\<lparr>Labels := nodeLabels, Spec_Taints := taints\<rparr>,
                                           w\<lparr>heap := h, rand := g\<rparr>))))))))"

text \<open>\<open>processVMPoolTemplate\<close>.\<close>

fun poolLabelsLoop :: "tags \<Rightarrow> labels \<Rightarrow> labels" where
  "poolLabelsLoop [] labels = labels"
| "poolLabelsLoop ((k, v) # rest) labels = poolLabelsLoop rest (labels(k \<mapsto> to_String v))"

definition processVMPoolTemplate ::
  "package_env \<Rightarrow> NodeTemplate \<Rightarrow> string \<Rightarrow> Node \<Rightarrow> world \<Rightarrow> (Node \<times> world) option" where
  "processVMPoolTemplate E template nodeName node w =
     (case VMPoolNodeTemplate template of
        None \<Rightarrow> None
      | Some pt \<Rightarrow>
          let (labels, g) = buildGenericLabels E template nodeName (rand w);
              labels = labels(agentPoolNodeLabelKey \<mapsto> AgentPoolName pt);
              labels = poolLabelsLoop (vmpool_Labels pt) labels
          in Some (node\<lparr>Labels := JoinStringMaps E (Labels node) labels,
                        Spec_Taints := Taints pt\<rparr>,
                   w\<lparr>rand := g\<rparr>))"

text \<open>\<open>isNPSeries\<close>.\<close>

definition isNPSeries :: "string \<Rightarrow> bool" where
  "isNPSeries name = HasPrefix (ToLower name) ''standard_np''"

text \<open>
  The block of \<open>buildNodeFromTemplate\<close> that fetches \<open>vcpu\<close>, \<open>gpuCount\<close> and
  \<open>memoryMb\<close>: from the dynamic lookup when it is enabled and succeeds, from the static
  list otherwise; the error of the static list is the error returned.
\<close>

definition fetchInstanceType :: "package_env \<Rightarrow> NodeTemplate \<Rightarrow> bool \<Rightarrow> error + InstanceType" where
  "fetchInstanceType E template enableDynamicInstanceList =
     (let dynamic =
            (if enableDynamicInstanceList then Some (GetInstanceTypeDynamically E template)
             else None)
      in case dynamic of
           Some (Inr instanceTypeDynamic) \<Rightarrow> Inr instanceTypeDynamic
         | _ \<Rightarrow>
             (case GetInstanceTypeStatically E template of
                Inr instanceTypeStatic \<Rightarrow> Inr instanceTypeStatic
              | Inl staticErr \<Rightarrow> Inl staticErr))"

text \<open>\<open>buildNodeFromTemplate\<close>.\<close>

definition buildNodeFromTemplate ::
  "package_env \<Rightarrow> string \<Rightarrow> NodeTemplate \<Rightarrow> bool \<Rightarrow> bool \<Rightarrow> world \<Rightarrow> (Node \<times> world) result" where
  "buildNodeFromTemplate E nodeGroupName template enableDynamicInstanceList
      enableLabelPrediction w =
     (let (r, g) = Int63 (rand w);
          nodeName = nodeGroupName @ ''-asg-'' @ itoa r;
          capacity = length (heap w);
          node = \<lparr>Name = nodeName, SelfLink = ''/api/v1/nodes/'' @ nodeName,
                  Labels = Map.empty, Spec_Taints = [], Status_Capacity = capacity,
                  Status_Allocatable = None, Status_Conditions = []\<rparr>;
          h = heap w @ [Map.empty]
      in case fetchInstanceType E template enableDynamicInstanceList of
           Inl staticErr \<Rightarrow> Err staticErr
         | Inr instanceType \<Rightarrow>
             let vcpu = VCPU instanceType;
                 gpuCount = GPU instanceType;
                 memoryMb = MemoryMb instanceType;
                 h = heapPut h capacity ResourcePods (NewQuantity 110 DecimalSI);
                 h = heapPut h capacity ResourceCPU (NewQuantity vcpu DecimalSI);
                 h = (if isNPSeries (SkuName template)
                      then heapPut h capacity xilinxFpgaResourceName (NewQuantity gpuCount DecimalSI)
                      else heapPut h capacity ResourceNvidiaGPU (NewQuantity gpuCount DecimalSI));
                 h = heapPut h capacity ResourceMemory
                       (NewQuantity (memoryMb * 1024 * 1024) DecimalSI);
                 node = node\<lparr>Status_Allocatable := Some (Status_Capacity node)\<rparr>;
                 w = w\<lparr>heap := h, rand := g\<rparr>
             in if VMSSNodeTemplate template \<noteq> None
                then (case processVMSSTemplate E template nodeName node enableLabelPrediction w of
                        None \<Rightarrow> Panic
                      | Some (node, w) \<Rightarrow>
                          Ok (node\<lparr>Status_Conditions := BuildReadyConditions E\<rparr>, w))
                else if VMPoolNodeTemplate template \<noteq> None
                then (case processVMPoolTemplate E template nodeName node w of
                        None \<Rightarrow> Panic
                      | Some (node, w) \<Rightarrow>
                          Ok (node\<lparr>Status_Conditions := BuildReadyConditions E\<rparr>, w))
                else Err (Errorf ''invalid node template: missing both VMSS and VMPool templates''))"

text \<open>
  The node and the heap of \<open>buildNodeFromTemplate\<close> at the point where the sub-template
  is looked at: names for the two values, for the statements below.
\<close>

definition nodeBeforeTemplate :: "string \<Rightarrow> nat \<Rightarrow> Node" where
  "nodeBeforeTemplate nodeName capacity =
     \<lparr>Name = nodeName, SelfLink = ''/api/v1/nodes/'' @ nodeName, Labels = Map.empty,
      Spec_Taints = [], Status_Capacity = capacity, Status_Allocatable = Some capacity,
      Status_Conditions = []\<rparr>"

definition capacityBeforeTemplate :: "NodeTemplate \<Rightarrow> InstanceType \<Rightarrow> ResourceList" where
  "capacityBeforeTemplate template instanceType =
     (Map.empty(ResourcePods \<mapsto> NewQuantity 110 DecimalSI,
                ResourceCPU \<mapsto> NewQuantity (VCPU instanceType) DecimalSI,
                (if isNPSeries (SkuName template) then xilinxFpgaResourceName
                 else ResourceNvidiaGPU) \<mapsto> NewQuantity (GPU instanceType) DecimalSI,
                ResourceMemory \<mapsto> NewQuantity (MemoryMb instanceType * 1024 * 1024) DecimalSI))"

section \<open>Concrete inputs for the node template\<close>

text \<open>
  Values for the parameters, for running the functions on concrete inputs: the tag
  prefixes and labels the Azure provider uses, one entry of the static SKU list, a dynamic
  lookup that fails, maps joined with the later map winning, and a parser of quantities
  that knows the one-digit numerals.
\<close>

definition exampleEnv :: package_env where
  "exampleEnv =
     \<lparr>nodeLabelTagName = ''k8s.io_cluster-autoscaler_node-template_label_'',
      nodeTaintTagName = ''k8s.io_cluster-autoscaler_node-template_taint_'',
      nodeResourcesTagName = ''k8s.io_cluster-autoscaler_node-template_resources_'',
      GPULabel = AKSLabelKeyPrefixValue @ ''accelerator'',
      legacyGPULabel = ''accelerator'',
      DefaultArch = ''amd64'',
      DefaultOS = ''linux'',
      GetInstanceTypeStatically =
        (\<lambda>t. if SkuName t = ''Standard_D2_v2''
              then Inr \<lparr>VCPU = 2, GPU = 0, MemoryMb = 7168\<rparr>
              else Inl (Errorf ''instance type not supported'')),
      GetInstanceTypeDynamically = (\<lambda>t. Inl (Errorf ''no SKU cache'')),
      isNvidiaEnabledSKU = (\<lambda>name. False),
      JoinStringMaps = (\<lambda>a b. a ++ b),
      BuildReadyConditions = [NodeCondition ''Ready'' ''True''],
      ParseQuantity =
        (\<lambda>s. case map_of (zip (map (\<lambda>c. [c]) ''0123456789'') [0, 1, 2, 3, 4, 5, 6, 7, 8, 9]) s of
                None \<Rightarrow> Inl (Errorf ''quantities must match the regular expression'')
              | Some v \<Rightarrow> Inr (Quantity v 0 DecimalSI))\<rparr>"

text \<open>A scale set template of that SKU in two zones, with the given tags, taints string
  and OS disk.\<close>

definition exampleTemplate ::
  "tags \<Rightarrow> string \<Rightarrow> VirtualMachineScaleSetOSDisk option \<Rightarrow> NodeTemplate" where
  "exampleTemplate ts inputTaints disk =
     \<lparr>SkuName = ''Standard_D2_v2'', InstanceOS = ''linux'', Location = ''eastus'',
      Zones = [''1'', ''2''], VMPoolNodeTemplate = None,
      VMSSNodeTemplate =
        Some \<lparr>InputLabels = Map.empty, InputTaints = inputTaints, Tags = ts, OSDisk = disk\<rparr>\<rparr>"

definition exampleDisk :: VirtualMachineScaleSetOSDisk where
  "exampleDisk = \<lparr>DiffDiskSettings = None, DiskSizeGB = Some 128, ManagedDisk = None\<rparr>"

text \<open>A state with the given heap and a source whose first draws are \<open>a\<close> and \<open>b\<close>, and a
  node whose capacity map is the object at address 0.\<close>

definition exampleWorld :: "ResourceList list \<Rightarrow> nat \<Rightarrow> nat \<Rightarrow> world" where
  "exampleWorld h a b = \<lparr>heap = h, rand = a ## b ## sconst 0\<rparr>"

definition exampleNode :: Node where
  "exampleNode = \<lparr>Name = ''pool-asg-7'', SelfLink = ''/api/v1/nodes/pool-asg-7'',
     Labels = Map.empty, Spec_Taints = [], Status_Capacity = 0, Status_Allocatable = Some 0,
     Status_Conditions = []\<rparr>"

text \<open>What a result holds, when it is a node: its name, one of its labels, one of its
  capacity quantities, its taints.\<close>

definition resultName :: "(Node \<times> world) result \<Rightarrow> string option" where
  "resultName r = (case r of Ok (node, w) \<Rightarrow> Some (Name node) | _ \<Rightarrow> None)"

definition resultLabel :: "(Node \<times> world) result \<Rightarrow> string \<Rightarrow> string option" where
  "resultLabel r k = (case r of Ok (node, w) \<Rightarrow> Labels node k | _ \<Rightarrow> None)"

definition resultCapacity :: "(Node \<times> world) result \<Rightarrow> string \<Rightarrow> Quantity option" where
  "resultCapacity r k = (case r of Ok (node, w) \<Rightarrow> capacityOf w node k | _ \<Rightarrow> None)"

definition resultTaints :: "(Node \<times> world) result \<Rightarrow> Taint list option" where
  "resultTaints r = (case r of Ok (node, w) \<Rightarrow> Some (Spec_Taints node) | _ \<Rightarrow> None)"

text \<open>The kind of a result: a node, an error (and which), or a panic.\<close>

definition resultKind :: "(Node \<times> world) result \<Rightarrow> unit result" where
  "resultKind r = (case r of Ok x \<Rightarrow> Ok () | Err e \<Rightarrow> Err e | Panic \<Rightarrow> Panic)"

text \<open>
  Two calls on one template can range over its maps in different orders: over the tags of
  a scale set, and over the labels of a VM pool. The tags and the pool labels of a
  template, and the template with the given lists in their places:
\<close>

definition tagsOf :: "NodeTemplate \<Rightarrow> tags" where
  "tagsOf template = (case VMSSNodeTemplate template of None \<Rightarrow> [] | Some vt \<Rightarrow> Tags vt)"

definition poolLabelsOf :: "NodeTemplate \<Rightarrow> tags" where
  "poolLabelsOf template =
     (case VMPoolNodeTemplate template of None \<Rightarrow> [] | Some pt \<Rightarrow> vmpool_Labels pt)"

definition reordered :: "tags \<Rightarrow> tags \<Rightarrow> NodeTemplate \<Rightarrow> NodeTemplate" where
  "reordered ts ls template =
     template\<lparr>VMSSNodeTemplate := map_option (\<lambda>vt. vt\<lparr>Tags := ts\<rparr>) (VMSSNodeTemplate template),
              VMPoolNodeTemplate :=
                map_option (\<lambda>pt. pt\<lparr>vmpool_Labels := ls\<rparr>) (VMPoolNodeTemplate template)\<rparr>"

text \<open>The resource that a tag names for \<open>extractAllocatableResourcesFromScaleSet\<close>, if it
  names one: the test and the normalisation at the head of the loop body.\<close>

definition tagResourceName :: "package_env \<Rightarrow> string \<Rightarrow> string option" where
  "tagResourceName E tagName =
     (let resourceName = Split tagName (nodeResourcesTagName E)
      in if length resourceName < 2 \<or> resourceName ! 1 = [] then None
         else Some (ReplaceAll (ReplaceAll (resourceName ! 1) ''_'' ''/'') ''~2'' ''/''))"

text \<open>Likewise the label that a tag names for \<open>extractLabelsFromTags\<close>.\<close>

definition tagLabelName :: "package_env \<Rightarrow> string \<Rightarrow> string option" where
  "tagLabelName E tagName =
     (let splits = Split tagName (nodeLabelTagName E)
      in if length splits > 1
         then
           let label = ReplaceAll (ReplaceAll (splits ! 1) ''_'' ''/'') ''~2'' ''_''
           in if label \<noteq> [] then Some label else None
         else None)"

text \<open>Two tags that name taints, in the two orders.\<close>

definition taintTagA :: "string \<times> string option" where
  "taintTagA = (''k8s.io_cluster-autoscaler_node-template_taint_gpu'', Some ''true:NoExecute'')"

definition taintTagB :: "string \<times> string option" where
  "taintTagB = (''k8s.io_cluster-autoscaler_node-template_taint_spot'', Some ''yes:NoSchedule'')"

text \<open>Two tags with different keys that name the same resource: \<open>_\<close> and \<open>~2\<close> both become
  \<open>/\<close> in the name of a resource.\<close>

definition resourceTagA :: "string \<times> string option" where
  "resourceTagA = (''k8s.io_cluster-autoscaler_node-template_resources_example.com_fpga'', Some ''1'')"

definition resourceTagB :: "string \<times> string option" where
  "resourceTagB = (''k8s.io_cluster-autoscaler_node-template_resources_example.com~2fpga'', Some ''2'')"

text \<open>A VM pool template of that SKU without zones, with the given labels.\<close>

definition examplePool :: "tags \<Rightarrow> NodeTemplate" where
  "examplePool ls =
     \<lparr>SkuName = ''Standard_D2_v2'', InstanceOS = ''linux'', Location = ''eastus'',
      Zones = [],
      VMPoolNodeTemplate =
        Some \<lparr>AgentPoolName = ''pool'', Taints = [], vmpool_Labels = ls, OSDiskType = None\<rparr>,
      VMSSNodeTemplate = None\<rparr>"

text \<open>A scale set with that SKU and the given location, and nothing else.\<close>

definition exampleVMSS :: "string option \<Rightarrow> VirtualMachineScaleSet" where
  "exampleVMSS location =
     \<lparr>vmss_Name = Some ''vmss-1'', vmss_Sku = Some \<lparr>sku_Name = Some ''Standard_D2_v2''\<rparr>,
      vmss_Location = location, vmss_Zones = None, vmss_Tags = [],
      vmss_VirtualMachineProfile = None\<rparr>"

text \<open>Tags that name a resource and a taint.\<close>

definition memoryTag :: tags where
  "memoryTag = [(''k8s.io_cluster-autoscaler_node-template_resources_memory'', Some ''5'')]"

definition taintTag :: tags where
  "taintTag = [(''k8s.io_cluster-autoscaler_node-template_taint_gpu'', Some ''true:NoExecute'')]"

section \<open>Properties of the string functions\<close>

lemma toLowerChar_idem: "toLowerChar (toLowerChar c) = toLowerChar c"
  by (simp add: toLowerChar_def upperLetters_def lowerLetters_def)

lemma ToLower_idem: "ToLower (ToLower s) = ToLower s"
  by (simp add: ToLower_def toLowerChar_idem)

section \<open>Properties of the lifecycle state enum\<close>

lemmas BlockVolumeReplicaLifecycleState_defs =
  BlockVolumeReplicaLifecycleStateProvisioning_def BlockVolumeReplicaLifecycleStateAvailable_def
  BlockVolumeReplicaLifecycleStateActivating_def BlockVolumeReplicaLifecycleStateTerminating_def
  BlockVolumeReplicaLifecycleStateTerminated_def BlockVolumeReplicaLifecycleStateFaulty_def

text \<open>
  C10. Every string \<open>s\<close> of \<open>GetBlockVolumeReplicaLifecycleStateEnumStringValues()\<close> is
  mapped by \<open>GetMappingBlockVolumeReplicaLifecycleStateEnum\<close> to \<open>(e, true)\<close> with
  \<open>string(e) = s\<close>, and the mapping does not see case: for every string \<open>s\<close> it gives
  the same result on \<open>s\<close> and on the lower case of \<open>s\<close>.
\<close>

theorem lifecycle_state_roundtrip:
  "(\<forall>s \<in> set GetBlockVolumeReplicaLifecycleStateEnumStringValues.
      GetMappingBlockVolumeReplicaLifecycleStateEnum s = (s, True))
   \<and> (\<forall>s. GetMappingBlockVolumeReplicaLifecycleStateEnum s =
            GetMappingBlockVolumeReplicaLifecycleStateEnum (ToLower s))"
proof
  show "\<forall>s \<in> set GetBlockVolumeReplicaLifecycleStateEnumStringValues.
      GetMappingBlockVolumeReplicaLifecycleStateEnum s = (s, True)"
    by (simp add: GetBlockVolumeReplicaLifecycleStateEnumStringValues_def
        GetMappingBlockVolumeReplicaLifecycleStateEnum_def lookup_ok_def
        mappingBlockVolumeReplicaLifecycleStateEnumLowerCase_def
        BlockVolumeReplicaLifecycleState_defs ToLower_def toLowerChar_def upperLetters_def lowerLetters_def)
  show "\<forall>s. GetMappingBlockVolumeReplicaLifecycleStateEnum s =
            GetMappingBlockVolumeReplicaLifecycleStateEnum (ToLower s)"
    by (simp add: GetMappingBlockVolumeReplicaLifecycleStateEnum_def ToLower_idem)
qed

theorem lifecycle_state_roundtrip_witness:
  "''FAULTY'' \<in> set GetBlockVolumeReplicaLifecycleStateEnumStringValues
   \<and> GetMappingBlockVolumeReplicaLifecycleStateEnum ''FAULTY'' = (''FAULTY'', True)
   \<and> GetMappingBlockVolumeReplicaLifecycleStateEnum ''Faulty'' =
       GetMappingBlockVolumeReplicaLifecycleStateEnum (ToLower ''Faulty'')
   \<and> GetMappingBlockVolumeReplicaLifecycleStateEnum ''Faulty'' = (''FAULTY'', True)"
proof -
  have m: "''FAULTY'' \<in> set GetBlockVolumeReplicaLifecycleStateEnumStringValues"
    by (simp add: GetBlockVolumeReplicaLifecycleStateEnumStringValues_def)
  have l: "ToLower ''Faulty'' = ToLower ''FAULTY''"
    by (simp add: ToLower_def toLowerChar_def upperLetters_def lowerLetters_def)
  from lifecycle_state_roundtrip m
  have a: "GetMappingBlockVolumeReplicaLifecycleStateEnum ''FAULTY'' = (''FAULTY'', True)"
    by blast
  from lifecycle_state_roundtrip
  have b: "GetMappingBlockVolumeReplicaLifecycleStateEnum ''Faulty'' =
       GetMappingBlockVolumeReplicaLifecycleStateEnum (ToLower ''Faulty'')"
    by blast
  have c: "GetMappingBlockVolumeReplicaLifecycleStateEnum ''Faulty'' = (''FAULTY'', True)"
    using a l by (simp add: GetMappingBlockVolumeReplicaLifecycleStateEnum_def)
  show ?thesis using m a b c by blast
qed

section \<open>Validation of the sort order\<close>



















section \<open>Taint strings\<close>



lemma dotStar_suffix: "t \<in> set (dotStar s) \<Longrightarrow> \<exists>p. s = p @ t"
proof (induction s)
  case Nil
  then show ?case by simp
next
  case (Cons c cs)
  then show ?case
    by (auto split: if_splits)
qed

lemma tails_suffix: "t \<in> set (tails s) \<Longrightarrow> \<exists>p. s = p @ t"
proof (induction s)
  case Nil
  then show ?case by simp
next
  case (Cons c cs)
  then show ?case
    by auto
qed

lemma remainders_taint_colon:
  assumes "remainders taintRegexp t \<noteq> []"
  shows "CHR '':'' \<in> set t"
proof -
  from assms obtain u where u: "u \<in> set (dotStar t)" and h: "HasPrefix u '':''"
    by (auto simp: taintRegexp_def split: if_splits)
  from h have "CHR '':'' \<in> set u"
    by (cases u) (auto simp: HasPrefix_def)
  with dotStar_suffix [OF u] show ?thesis by auto
qed

lemma MatchString_taint_colon:
  assumes "MatchString taintRegexp v"
  shows "CHR '':'' \<in> set v"
proof -
  from assms obtain t where t: "t \<in> set (tails v)" and r: "remainders taintRegexp t \<noteq> []"
    by (auto simp: MatchString_def list_ex_iff)
  from remainders_taint_colon [OF r] tails_suffix [OF t] show ?thesis by auto
qed

lemma Index_char: "c \<in> set s \<Longrightarrow> \<exists>m. Index s [c] = Some m"
  by (induction s) (auto simp: HasPrefix_def)

lemma Index_char_None: "c \<notin> set s \<Longrightarrow> Index s [c] = None"
  by (induction s) (auto simp: HasPrefix_def)

lemma SplitN2_taintValue:
  "MatchString taintRegexp v \<Longrightarrow> length (SplitN2 v '':'') = 2"
  using Index_char [OF MatchString_taint_colon, of v]
  by (auto simp: SplitN2_def)

lemma Index_append_char: "c \<notin> set x \<Longrightarrow> Index (x @ c # r) [c] = Some (length x)"
  by (induction x) (auto simp: HasPrefix_def)

lemma Index_char_take: "Index s [c] = Some m \<Longrightarrow> c \<notin> set (take m s)"
proof (induction s arbitrary: m)
  case Nil
  then show ?case by simp
next
  case (Cons a s)
  then show ?case
    by (cases "a = c") (auto simp: HasPrefix_def)
qed

lemma Split_nonempty: "sep \<noteq> [] \<Longrightarrow> Split s sep \<noteq> []"
  by (subst Split.simps) (simp split: option.splits)

lemma Split_char_pieces: "x \<in> set (Split s [c]) \<Longrightarrow> c \<notin> set x"
proof (induction s "[c]" arbitrary: x rule: Split.induct)
  case (1 s)
  show ?case
  proof (cases "Index s [c]")
    case None
    with "1.prems" have "x = s" by (subst (asm) Split.simps) simp
    moreover from None have "c \<notin> set s" using Index_char [of c s] by auto
    ultimately show ?thesis by simp
  next
    case (Some m)
    with "1.prems" have "x = take m s \<or> x \<in> set (Split (drop (m + length [c]) s) [c])"
      by (subst (asm) Split.simps) auto
    then show ?thesis
    proof
      assume "x = take m s"
      with Index_char_take [OF Some] show ?thesis by simp
    next
      assume "x \<in> set (Split (drop (m + length [c]) s) [c])"
      with "1.hyps" [OF _ Some] show ?thesis by simp
    qed
  qed
qed

lemma Split_Join_char:
  "xs \<noteq> [] \<Longrightarrow> \<forall>x \<in> set xs. c \<notin> set x \<Longrightarrow> Split (Join xs [c]) [c] = xs"
proof (induction xs "[c]" rule: Join.induct)
  case 1
  then show ?case by simp
next
  case (2 x)
  then have "Index x [c] = None" by (simp add: Index_char_None)
  then show ?case by (subst Split.simps) simp
next
  case (3 x y ys)
  then have i: "Index (x @ c # Join (y # ys) [c]) [c] = Some (length x)"
    by (simp add: Index_append_char)
  from 3 have "Split (Join (y # ys) [c]) [c] = y # ys" by simp
  with i show ?case by (subst Split.simps) simp
qed

lemma set_firstOccurrences: "set (firstOccurrences xs) = set xs"
  by (induction xs rule: firstOccurrences.induct) auto

lemma distinct_firstOccurrences: "distinct (firstOccurrences xs)"
  by (induction xs rule: firstOccurrences.induct) (auto simp: set_firstOccurrences)

lemma firstOccurrences_distinct: "distinct ys \<Longrightarrow> firstOccurrences ys = ys"
proof (induction ys)
  case Nil
  then show ?case by simp
next
  case (Cons y ys)
  then have "filter (\<lambda>z. z \<noteq> y) ys = ys" by (auto simp: filter_id_conv)
  with Cons show ?case by simp
qed

lemma firstOccurrences_idem: "firstOccurrences (firstOccurrences xs) = firstOccurrences xs"
  by (simp add: firstOccurrences_distinct distinct_firstOccurrences)

lemma specStringLoop_firstOccurrences:
  "specStringLoop xs d acc =
     acc @ map (\<lambda>x. snd (constructTaintFromString x))
             (filter (\<lambda>x. fst (constructTaintFromString x))
                (firstOccurrences (filter (\<lambda>x. d x = None) xs)))"
proof (induction xs arbitrary: d acc)
  case Nil
  then show ?case by simp
next
  case (Cons x xs)
  show ?case
  proof (cases "d x")
    case (Some u)
    then show ?thesis by (simp add: Cons.IH)
  next
    case None
    let ?c = "constructTaintFromString x"
    have step: "specStringLoop (x # xs) d acc =
        specStringLoop xs (d(x \<mapsto> ())) (if fst ?c then acc @ [snd ?c] else acc)"
      using None by (simp split: prod.splits)
    have f: "filter (\<lambda>y. (d(x \<mapsto> ())) y = None) xs
               = filter (\<lambda>y. y \<noteq> x) (filter (\<lambda>y. d y = None) xs)"
      by (auto intro: filter_cong)
    have r: "firstOccurrences (filter (\<lambda>y. d y = None) (x # xs))
               = x # firstOccurrences (filter (\<lambda>y. y \<noteq> x) (filter (\<lambda>y. d y = None) xs))"
      using None by (simp del: filter_filter)
    show ?thesis
      unfolding step Cons.IH f r by simp
  qed
qed

text \<open>
  C9. \<open>extractTaintsFromSpecString\<close> does not see repetitions: a string gives the same
  taints as the string made of the first occurrence of each of its comma-separated pieces,
  in the order of first occurrence.
\<close>

theorem extractTaintsFromSpecString_duplicates:
  "extractTaintsFromSpecString taintsString =
     extractTaintsFromSpecString (Join (firstOccurrences (Split taintsString '','')) '','')"
proof -
  let ?xs = "Split taintsString '',''"
  let ?ys = "firstOccurrences ?xs"
  have "?xs \<noteq> []" by (simp add: Split_nonempty)
  then have ne: "?ys \<noteq> []" by (cases ?xs) simp_all
  have "\<forall>x \<in> set ?ys. CHR '','' \<notin> set x"
    using Split_char_pieces by (auto simp: set_firstOccurrences)
  with ne have "Split (Join ?ys '','') '','' = ?ys" by (rule Split_Join_char)
  then show ?thesis
    by (simp add: extractTaintsFromSpecString_def specStringLoop_firstOccurrences
        firstOccurrences_idem)
qed

theorem extractTaintsFromSpecString_duplicates_witness:
  "Join (firstOccurrences (Split ''a=b:NoSchedule,c=d:NoExecute,a=b:NoSchedule'' '','')) '',''
     = ''a=b:NoSchedule,c=d:NoExecute''
   \<and> extractTaintsFromSpecString ''a=b:NoSchedule,c=d:NoExecute,a=b:NoSchedule''
       = extractTaintsFromSpecString ''a=b:NoSchedule,c=d:NoExecute''
   \<and> extractTaintsFromSpecString ''a=b:NoSchedule,c=d:NoExecute''
       = [\<lparr>Key = ''a'', Value = ''b'', Effect = ''NoSchedule''\<rparr>,
          \<lparr>Key = ''c'', Value = ''d'', Effect = ''NoExecute''\<rparr>]"
proof -
  have j: "Join (firstOccurrences (Split ''a=b:NoSchedule,c=d:NoExecute,a=b:NoSchedule'' '','')) '',''
     = ''a=b:NoSchedule,c=d:NoExecute''"
    by code_simp
  have e: "extractTaintsFromSpecString ''a=b:NoSchedule,c=d:NoExecute''
       = [\<lparr>Key = ''a'', Value = ''b'', Effect = ''NoSchedule''\<rparr>,
          \<lparr>Key = ''c'', Value = ''d'', Effect = ''NoExecute''\<rparr>]"
    by code_simp
  from extractTaintsFromSpecString_duplicates [of "''a=b:NoSchedule,c=d:NoExecute,a=b:NoSchedule''"] j e
  show ?thesis by simp
qed


lemma tails_append: "t \<in> set (tails (p @ t))"
  by (induction p) (auto, cases t, auto)

lemma dotStar_self: "t \<in> set (dotStar t)"
  by (cases t) auto

lemma MatchString_taint_substring:
  assumes "e \<in> {''NoSchedule'', ''NoExecute'', ''PreferNoSchedule''}"
  shows "MatchString taintRegexp (p @ '':'' @ e @ q)"
proof -
  let ?t = "'':'' @ e @ q"
  have "remainders (Seq [Lit '':'', Alt [Lit ''NoSchedule'', Lit ''NoExecute'', Lit ''PreferNoSchedule'']]) ?t \<noteq> []"
    using assms by (auto simp: HasPrefix_def)
  then have "remainders taintRegexp ?t \<noteq> []"
    using dotStar_self [of ?t] by (cases ?t) (auto simp: taintRegexp_def)
  then show ?thesis
    using tails_append [of ?t p] by (auto simp: MatchString_def list_ex_iff)
qed

text \<open>
  C3. \<open>constructTaintFromString\<close> is meant to accept \<open>key=value:effect\<close> with one of the
  three effects only. The pattern is not anchored and the value is cut at its first colon,
  so a string whose text after the colon only starts with, or only contains, an effect is
  accepted too, with an effect that is none of the three.
\<close>

theorem constructTaintFromString_unanchored:
  "constructTaintFromString ''k=v:NoScheduleX''
     = (True, \<lparr>Key = ''k'', Value = ''v'', Effect = ''NoScheduleX''\<rparr>)
   \<and> constructTaintFromString ''k=a:b:NoSchedule''
     = (True, \<lparr>Key = ''k'', Value = ''a'', Effect = ''b:NoSchedule''\<rparr>)"
  by code_simp

section \<open>The template of a scale set\<close>

text \<open>
  C5. \<open>buildNodeTemplateFromVMSS\<close> returns an error exactly when the scale set has no
  SKU, a SKU without a name, or no location. A template it returns has the name of the SKU
  and the location of the scale set, and no zones when the scale set gives none.
\<close>

theorem buildNodeTemplateFromVMSS_result:
  "(isl (buildNodeTemplateFromVMSS E vmss inputLabels inputTaints) \<longleftrightarrow>
      (vmss_Sku vmss = None \<or> (\<exists>sku. vmss_Sku vmss = Some sku \<and> sku_Name sku = None)
        \<or> vmss_Location vmss = None))
   \<and> (\<forall>t. buildNodeTemplateFromVMSS E vmss inputLabels inputTaints = Inr t \<longrightarrow>
          (\<exists>sku. vmss_Sku vmss = Some sku \<and> sku_Name sku = Some (SkuName t))
          \<and> vmss_Location vmss = Some (Location t)
          \<and> (vmss_Zones vmss = None \<longrightarrow> Zones t = []))"
  by (cases "vmss_Sku vmss"; cases "vmss_Location vmss")
     (auto simp: buildNodeTemplateFromVMSS_def Let_def)

lemma extractLabelsFromTagsLoop_total:
  "\<forall>(k, v) \<in> set ts. v \<noteq> None \<Longrightarrow> \<exists>r. extractLabelsFromTagsLoop E ts result = Some r"
  by (induction E ts result rule: extractLabelsFromTagsLoop.induct) (auto simp: Let_def)

lemma extractTaintsFromTagsLoop_total:
  "\<forall>(k, v) \<in> set ts. v \<noteq> None \<Longrightarrow> \<exists>r. extractTaintsFromTagsLoop E ts taints = Some r"
  by (induction E ts taints rule: extractTaintsFromTagsLoop.induct) (auto simp: Let_def)

lemma extractAllocatableResourcesLoop_total:
  "\<forall>(k, v) \<in> set ts. v \<noteq> None \<Longrightarrow> \<exists>r. extractAllocatableResourcesLoop E ts resources = Some r"
  by (induction E ts resources rule: extractAllocatableResourcesLoop.induct)
     (auto simp: Let_def split: sum.splits)

lemma processVMSSTemplate_fields:
  assumes "processVMSSTemplate E t nm node p w = Some (n', w')"
  shows "Status_Capacity n' = Status_Capacity node \<and> Status_Allocatable n' = Status_Allocatable node
    \<and> Status_Conditions n' = Status_Conditions node \<and> Name n' = Name node
    \<and> SelfLink n' = SelfLink node \<and> length (heap w') = length (heap w)"
  using assms
  by (auto simp: processVMSSTemplate_def Let_def heapPut_def split: option.splits prod.splits if_splits)

lemma processVMSSTemplate_taints:
  assumes "processVMSSTemplate E t nm node p w = Some (n', w')" and "VMSSNodeTemplate t = Some vt"
  shows "(InputTaints vt \<noteq> [] \<longrightarrow> Spec_Taints n' = extractTaintsFromSpecString (InputTaints vt))
    \<and> (InputTaints vt = [] \<longrightarrow> extractTaintsFromTags E (Tags vt) = Some (Spec_Taints n'))"
  using assms
  by (auto simp: processVMSSTemplate_def Let_def split: option.splits prod.splits if_splits)

lemma processVMSSTemplate_total:
  assumes "VMSSNodeTemplate t = Some vt" and "\<forall>(k, v) \<in> set (Tags vt). v \<noteq> None"
  shows "\<exists>n' w'. processVMSSTemplate E t nm node p w = Some (n', w')"
proof -
  obtain l where l: "extractLabelsFromTags E (Tags vt) = Some l"
    using extractLabelsFromTagsLoop_total [OF assms(2)] by (auto simp: extractLabelsFromTags_def)
  obtain r where r: "extractAllocatableResourcesFromScaleSet E (Tags vt) = Some r"
    using extractAllocatableResourcesLoop_total [OF assms(2)]
    by (auto simp: extractAllocatableResourcesFromScaleSet_def)
  obtain ts where ts: "extractTaintsFromTags E (Tags vt) = Some ts"
    using extractTaintsFromTagsLoop_total [OF assms(2)] by (auto simp: extractTaintsFromTags_def)
  show ?thesis
    using assms(1) l r ts
    by (simp add: processVMSSTemplate_def Let_def split: prod.splits)
qed

section \<open>The node built from a template\<close>

lemma buildNodeFromTemplate_unfold:
  "buildNodeFromTemplate E nodeGroupName template dyn pred w =
     (case fetchInstanceType E template dyn of
        Inl staticErr \<Rightarrow> Err staticErr
      | Inr instanceType \<Rightarrow>
          (let nodeName = nodeGroupName @ ''-asg-'' @ itoa (shd (rand w) mod 2 ^ 63);
               node = nodeBeforeTemplate nodeName (length (heap w));
               w0 = \<lparr>heap = heap w @ [capacityBeforeTemplate template instanceType],
                     rand = stl (rand w)\<rparr>
           in if VMSSNodeTemplate template \<noteq> None
              then (case processVMSSTemplate E template nodeName node pred w0 of
                      None \<Rightarrow> Panic
                    | Some (node, w) \<Rightarrow> Ok (node\<lparr>Status_Conditions := BuildReadyConditions E\<rparr>, w))
              else if VMPoolNodeTemplate template \<noteq> None
              then (case processVMPoolTemplate E template nodeName node w0 of
                      None \<Rightarrow> Panic
                    | Some (node, w) \<Rightarrow> Ok (node\<lparr>Status_Conditions := BuildReadyConditions E\<rparr>, w))
              else Err (Errorf ''invalid node template: missing both VMSS and VMPool templates'')))"
  by (cases w)
     (simp add: buildNodeFromTemplate_def Int63_def Let_def nodeBeforeTemplate_def
      capacityBeforeTemplate_def heapPut_def nth_append split: sum.splits)

lemma processVMPoolTemplate_fields:
  assumes "processVMPoolTemplate E t nm node w = Some (n', w')"
  shows "Status_Capacity n' = Status_Capacity node \<and> Status_Allocatable n' = Status_Allocatable node
    \<and> Status_Conditions n' = Status_Conditions node \<and> Name n' = Name node
    \<and> SelfLink n' = SelfLink node \<and> heap w' = heap w"
  using assms
  by (auto simp: processVMPoolTemplate_def Let_def split: option.splits prod.splits)

lemma buildNodeFromTemplate_Ok:
  assumes "buildNodeFromTemplate E nodeGroupName template dyn pred w = Ok (node, w')"
  shows "\<exists>instanceType n1.
      fetchInstanceType E template dyn = Inr instanceType
      \<and> node = n1\<lparr>Status_Conditions := BuildReadyConditions E\<rparr>
      \<and> ((VMSSNodeTemplate template \<noteq> None
            \<and> processVMSSTemplate E template
                 (nodeGroupName @ ''-asg-'' @ itoa (shd (rand w) mod 2 ^ 63))
                 (nodeBeforeTemplate (nodeGroupName @ ''-asg-'' @ itoa (shd (rand w) mod 2 ^ 63))
                    (length (heap w)))
                 pred
                 \<lparr>heap = heap w @ [capacityBeforeTemplate template instanceType],
                  rand = stl (rand w)\<rparr> = Some (n1, w'))
          \<or> (VMSSNodeTemplate template = None \<and> VMPoolNodeTemplate template \<noteq> None
            \<and> processVMPoolTemplate E template
                 (nodeGroupName @ ''-asg-'' @ itoa (shd (rand w) mod 2 ^ 63))
                 (nodeBeforeTemplate (nodeGroupName @ ''-asg-'' @ itoa (shd (rand w) mod 2 ^ 63))
                    (length (heap w)))
                 \<lparr>heap = heap w @ [capacityBeforeTemplate template instanceType],
                  rand = stl (rand w)\<rparr> = Some (n1, w')))"
  using assms
  by (auto simp: buildNodeFromTemplate_unfold Let_def
           split: sum.splits option.splits if_splits prod.splits)

text \<open>
  C8. In every node that \<open>buildNodeFromTemplate\<close> returns, \<open>Status.Allocatable\<close> is
  the very map that \<open>Status.Capacity\<close> is, so the two agree on every resource name, also
  on what \<open>processVMSSTemplate\<close> writes into the capacity after the assignment.
\<close>

theorem buildNodeFromTemplate_allocatable:
  assumes "buildNodeFromTemplate E nodeGroupName template dyn pred w = Ok (node, w')"
  shows "Status_Allocatable node = Some (Status_Capacity node)
    \<and> Status_Capacity node < length (heap w')
    \<and> (\<forall>resourceName. allocatableOf w' node resourceName = capacityOf w' node resourceName)"
proof -
  from buildNodeFromTemplate_Ok [OF assms] obtain instanceType n1 nm w0 where
    node: "node = n1\<lparr>Status_Conditions := BuildReadyConditions E\<rparr>" and
    w0: "w0 = \<lparr>heap = heap w @ [capacityBeforeTemplate template instanceType], rand = stl (rand w)\<rparr>" and
    p: "processVMSSTemplate E template nm (nodeBeforeTemplate nm (length (heap w))) pred w0 = Some (n1, w')
        \<or> processVMPoolTemplate E template nm (nodeBeforeTemplate nm (length (heap w))) w0 = Some (n1, w')"
    by blast
  from p have f: "Status_Capacity n1 = length (heap w) \<and> Status_Allocatable n1 = Some (length (heap w))
      \<and> length (heap w') = Suc (length (heap w))"
  proof
    assume "processVMSSTemplate E template nm (nodeBeforeTemplate nm (length (heap w))) pred w0 = Some (n1, w')"
    from processVMSSTemplate_fields [OF this] show ?thesis
      by (simp add: nodeBeforeTemplate_def w0)
  next
    assume "processVMPoolTemplate E template nm (nodeBeforeTemplate nm (length (heap w))) w0 = Some (n1, w')"
    from processVMPoolTemplate_fields [OF this] show ?thesis
      by (simp add: nodeBeforeTemplate_def w0)
  qed
  with node show ?thesis
    by (simp add: allocatableOf_def capacityOf_def)
qed

lemma fetchInstanceType_error:
  "isl (fetchInstanceType E template dyn) \<longleftrightarrow>
     isl (GetInstanceTypeStatically E template) \<and> (dyn \<longrightarrow> isl (GetInstanceTypeDynamically E template))"
  by (auto simp: fetchInstanceType_def Let_def split: sum.splits option.splits)

lemma buildNodeFromTemplate_Err_iff:
  "(\<exists>e. buildNodeFromTemplate E nodeGroupName template dyn pred w = Err e) \<longleftrightarrow>
     isl (fetchInstanceType E template dyn)
     \<or> (VMSSNodeTemplate template = None \<and> VMPoolNodeTemplate template = None)"
  by (auto simp: buildNodeFromTemplate_unfold Let_def split: sum.splits option.splits prod.splits)

lemma buildNodeFromTemplate_total_VMSS:
  assumes "fetchInstanceType E template dyn = Inr instanceType"
    and "VMSSNodeTemplate template = Some vt"
    and "\<forall>(k, v) \<in> set (Tags vt). v \<noteq> None"
  shows "\<exists>node w'. buildNodeFromTemplate E nodeGroupName template dyn pred w = Ok (node, w')"
proof -
  let ?nm = "nodeGroupName @ ''-asg-'' @ itoa (shd (rand w) mod 2 ^ 63)"
  obtain n1 w1 where "processVMSSTemplate E template ?nm (nodeBeforeTemplate ?nm (length (heap w))) pred
      \<lparr>heap = heap w @ [capacityBeforeTemplate template instanceType], rand = stl (rand w)\<rparr> = Some (n1, w1)"
    using processVMSSTemplate_total [OF assms(2,3)] by blast
  with assms(1,2) show ?thesis
    by (simp add: buildNodeFromTemplate_unfold Let_def)
qed

lemma buildNodeFromTemplate_total_VMPool:
  assumes "fetchInstanceType E template dyn = Inr instanceType"
    and "VMSSNodeTemplate template = None" and "VMPoolNodeTemplate template = Some pt"
  shows "\<exists>node w'. buildNodeFromTemplate E nodeGroupName template dyn pred w = Ok (node, w')"
  using assms
  by (simp add: buildNodeFromTemplate_unfold Let_def processVMPoolTemplate_def split: prod.splits)

text \<open>
  C2. \<open>buildNodeFromTemplate\<close> returns an error exactly in the two cases of lemma
  \<open>buildNodeFromTemplate_Err_iff\<close>, and a node whenever no tag of a scale set template
  has a nil value. With a nil tag value and no taints in the spec it does neither:
  \<open>extractTaintsFromTags\<close> dereferences the nil pointer, although the instance type is
  resolved and the scale set sub-template is there.
\<close>

theorem buildNodeFromTemplate_nil_tag_panics:
  "buildNodeFromTemplate exampleEnv ''pool'' (exampleTemplate [(''foo'', None)] [] None) False False
      (exampleWorld [] 1 0) = Panic
   \<and> fetchInstanceType exampleEnv (exampleTemplate [(''foo'', None)] [] None) False
       = Inr \<lparr>VCPU = 2, GPU = 0, MemoryMb = 7168\<rparr>
   \<and> VMSSNodeTemplate (exampleTemplate [(''foo'', None)] [] None) \<noteq> None"
  by (simp add: buildNodeFromTemplate_def exampleEnv_def exampleTemplate_def exampleWorld_def
      fetchInstanceType_def processVMSSTemplate_def Int63_def Let_def
      buildGenericLabels_def Intn_def extractLabelsFromTags_def
      extractAllocatableResourcesFromScaleSet_def extractTaintsFromTags_def
      Split.simps HasPrefix_def split: prod.splits)

lemma processVMSSTemplate_capacity:
  assumes "processVMSSTemplate E t nm node p w = Some (n', w')" and "VMSSNodeTemplate t = Some vt"
    and "Status_Capacity node < length (heap w)"
  shows "\<exists>res. extractAllocatableResourcesFromScaleSet E (Tags vt) = Some res
    \<and> capacityOf w' n' =
        (if OSDisk vt \<noteq> None \<and> DiskSizeGB (the (OSDisk vt)) \<noteq> None
         then (heap w ! Status_Capacity node)(ResourceEphemeralStorage \<mapsto>
                NewQuantity (scast (the (DiskSizeGB (the (OSDisk vt)))) * 1024 * 1024 * 1024) DecimalSI)
         else heap w ! Status_Capacity node) ++ res"
  using assms
  by (auto simp: processVMSSTemplate_def Let_def heapPut_def capacityOf_def
           split: option.splits prod.splits if_splits)

lemma sint_memory:
  fixes m :: "64 word"
  assumes "- (2 ^ 43) \<le> sint m" and "sint m < 2 ^ 43"
  shows "sint (m * 1024 * 1024) = sint m * 1024 * 1024"
proof -
  have "sint (m * 1024 * 1024) = signed_take_bit 63 (sint m * 1024 * 1024)"
    by (simp add: sint_word_ariths signed_take_bit_mult)
  also have "\<dots> = sint m * 1024 * 1024"
    using assms by (intro signed_take_bit_int_eq_self) auto
  finally show ?thesis .
qed

lemma sint_disk:
  fixes d :: "32 word"
  shows "sint ((scast d :: 64 word) * 1024 * 1024 * 1024) = sint d * 1024 * 1024 * 1024"
proof -
  have s: "sint (scast d :: 64 word) = sint d"
    by (simp add: sint_up_scast is_up)
  have b: "- (2 ^ 31) \<le> sint d \<and> sint d < 2 ^ 31"
    using sint_ge [of d] sint_lt [of d] by simp
  have "sint ((scast d :: 64 word) * 1024 * 1024 * 1024)
      = signed_take_bit 63 (sint (scast d :: 64 word) * 1024 * 1024 * 1024)"
    by (simp add: sint_word_ariths signed_take_bit_mult)
  also have "\<dots> = signed_take_bit 63 (sint d * 1024 * 1024 * 1024)"
    by (simp add: s)
  also have "\<dots> = sint d * 1024 * 1024 * 1024"
    using b by (intro signed_take_bit_int_eq_self) auto
  finally show ?thesis .
qed

lemma buildNodeFromTemplate_capacity_VMSS:
  assumes "buildNodeFromTemplate E nodeGroupName template dyn pred w = Ok (node, w')"
    and "VMSSNodeTemplate template = Some vt"
  shows "\<exists>instanceType res.
      fetchInstanceType E template dyn = Inr instanceType
      \<and> extractAllocatableResourcesFromScaleSet E (Tags vt) = Some res
      \<and> capacityOf w' node =
          (if OSDisk vt \<noteq> None \<and> DiskSizeGB (the (OSDisk vt)) \<noteq> None
           then (capacityBeforeTemplate template instanceType)(ResourceEphemeralStorage \<mapsto>
                  NewQuantity (scast (the (DiskSizeGB (the (OSDisk vt)))) * 1024 * 1024 * 1024) DecimalSI)
           else capacityBeforeTemplate template instanceType) ++ res"
proof -
  from buildNodeFromTemplate_Ok [OF assms(1)] assms(2) obtain instanceType n1 nm where
    f: "fetchInstanceType E template dyn = Inr instanceType" and
    node: "node = n1\<lparr>Status_Conditions := BuildReadyConditions E\<rparr>" and
    p: "processVMSSTemplate E template nm (nodeBeforeTemplate nm (length (heap w))) pred
          \<lparr>heap = heap w @ [capacityBeforeTemplate template instanceType], rand = stl (rand w)\<rparr>
        = Some (n1, w')"
    by auto
  let ?w0 = "\<lparr>heap = heap w @ [capacityBeforeTemplate template instanceType], rand = stl (rand w)\<rparr>"
  let ?n0 = "nodeBeforeTemplate nm (length (heap w))"
  have l: "Status_Capacity ?n0 < length (heap ?w0)"
    by (simp add: nodeBeforeTemplate_def)
  have h: "heap ?w0 ! Status_Capacity ?n0 = capacityBeforeTemplate template instanceType"
    by (simp add: nodeBeforeTemplate_def)
  from processVMSSTemplate_capacity [OF p assms(2) l] obtain res where
    r: "extractAllocatableResourcesFromScaleSet E (Tags vt) = Some res" and
    c: "capacityOf w' n1 =
        (if OSDisk vt \<noteq> None \<and> DiskSizeGB (the (OSDisk vt)) \<noteq> None
         then (heap ?w0 ! Status_Capacity ?n0)(ResourceEphemeralStorage \<mapsto>
                NewQuantity (scast (the (DiskSizeGB (the (OSDisk vt)))) * 1024 * 1024 * 1024) DecimalSI)
         else heap ?w0 ! Status_Capacity ?n0) ++ res"
    by blast
  have "capacityOf w' node = capacityOf w' n1"
    using node by (simp add: capacityOf_def)
  with c h f r show ?thesis by (simp only:) blast
qed

lemma buildNodeFromTemplate_capacity_VMPool:
  assumes "buildNodeFromTemplate E nodeGroupName template dyn pred w = Ok (node, w')"
    and "VMSSNodeTemplate template = None"
  shows "\<exists>instanceType. fetchInstanceType E template dyn = Inr instanceType
      \<and> capacityOf w' node = capacityBeforeTemplate template instanceType"
proof -
  from buildNodeFromTemplate_Ok [OF assms(1)] assms(2) obtain instanceType n1 nm where
    f: "fetchInstanceType E template dyn = Inr instanceType" and
    node: "node = n1\<lparr>Status_Conditions := BuildReadyConditions E\<rparr>" and
    p: "processVMPoolTemplate E template nm (nodeBeforeTemplate nm (length (heap w)))
          \<lparr>heap = heap w @ [capacityBeforeTemplate template instanceType], rand = stl (rand w)\<rparr>
        = Some (n1, w')"
    by auto
  from processVMPoolTemplate_fields [OF p] f node show ?thesis
    by (auto simp add: nodeBeforeTemplate_def capacityOf_def)
qed

lemma capacityBeforeTemplate_memory:
  "capacityBeforeTemplate template instanceType ResourceMemory
     = Some (NewQuantity (MemoryMb instanceType * 1024 * 1024) DecimalSI)"
  by (simp add: capacityBeforeTemplate_def)

lemma ResourceEphemeralStorage_neq_ResourceMemory: "ResourceEphemeralStorage \<noteq> ResourceMemory"
  by (simp add: ResourceEphemeralStorage_def ResourceMemory_def)

text \<open>
  C4, with the resources tags and the range of \<open>int64\<close> taken into account. The memory capacity of a returned node is the quantity of
  \<open>memoryMb*1024*1024\<close>, computed on \<open>int64\<close>, unless a resources tag of the scale set
  names \<open>memory\<close>; that product is the integer product when \<open>memoryMb\<close> lies within
  \<open>2^43\<close> of zero. \<open>processVMSSTemplate\<close> sets the ephemeral storage of a template
  with a disk size to the quantity of \<open>DiskSizeGB*1024*1024*1024\<close>, unless a resources tag
  names \<open>ephemeral-storage\<close>; that product never overflows.
\<close>

theorem template_capacity_quantities:
  "(buildNodeFromTemplate E nodeGroupName template dyn pred w = Ok (node, w')
      \<and> fetchInstanceType E template dyn = Inr instanceType
      \<and> (\<forall>vt res. VMSSNodeTemplate template = Some vt
            \<and> extractAllocatableResourcesFromScaleSet E (Tags vt) = Some res
            \<longrightarrow> res ResourceMemory = None)
      \<longrightarrow> capacityOf w' node ResourceMemory
            = Some (NewQuantity (MemoryMb instanceType * 1024 * 1024) DecimalSI))
   \<and> (- (2 ^ 43) \<le> sint (MemoryMb instanceType) \<and> sint (MemoryMb instanceType) < 2 ^ 43
      \<longrightarrow> sint (MemoryMb instanceType * 1024 * 1024) = sint (MemoryMb instanceType) * 1024 * 1024)
   \<and> (processVMSSTemplate E template nodeName node0 pred w0 = Some (node1, w1)
      \<and> VMSSNodeTemplate template = Some vt \<and> OSDisk vt = Some disk
      \<and> DiskSizeGB disk = Some diskSize \<and> Status_Capacity node0 < length (heap w0)
      \<and> extractAllocatableResourcesFromScaleSet E (Tags vt) = Some res
      \<and> res ResourceEphemeralStorage = None
      \<longrightarrow> capacityOf w1 node1 ResourceEphemeralStorage
            = Some (NewQuantity (scast diskSize * 1024 * 1024 * 1024) DecimalSI))
   \<and> sint ((scast diskSize :: 64 word) * 1024 * 1024 * 1024) = sint diskSize * 1024 * 1024 * 1024"
proof (intro conjI impI)
  assume a: "buildNodeFromTemplate E nodeGroupName template dyn pred w = Ok (node, w')
      \<and> fetchInstanceType E template dyn = Inr instanceType
      \<and> (\<forall>vt res. VMSSNodeTemplate template = Some vt
            \<and> extractAllocatableResourcesFromScaleSet E (Tags vt) = Some res
            \<longrightarrow> res ResourceMemory = None)"
  show "capacityOf w' node ResourceMemory
            = Some (NewQuantity (MemoryMb instanceType * 1024 * 1024) DecimalSI)"
  proof (cases "VMSSNodeTemplate template")
    case None
    from a have ok: "buildNodeFromTemplate E nodeGroupName template dyn pred w = Ok (node, w')"
      by simp
    from buildNodeFromTemplate_capacity_VMPool [OF ok None] a show ?thesis
      by (auto simp: capacityBeforeTemplate_memory)
  next
    case (Some vt')
    from a have ok: "buildNodeFromTemplate E nodeGroupName template dyn pred w = Ok (node, w')"
      by simp
    from buildNodeFromTemplate_capacity_VMSS [OF ok Some] a obtain res' where
      r: "extractAllocatableResourcesFromScaleSet E (Tags vt') = Some res'" and
      c: "capacityOf w' node =
          (if OSDisk vt' \<noteq> None \<and> DiskSizeGB (the (OSDisk vt')) \<noteq> None
           then (capacityBeforeTemplate template instanceType)(ResourceEphemeralStorage \<mapsto>
                  NewQuantity (scast (the (DiskSizeGB (the (OSDisk vt')))) * 1024 * 1024 * 1024) DecimalSI)
           else capacityBeforeTemplate template instanceType) ++ res'"
      by auto
    from a Some r have "res' ResourceMemory = None" by blast
    with c show ?thesis
      by (simp add: map_add_def capacityBeforeTemplate_memory
          ResourceEphemeralStorage_neq_ResourceMemory [symmetric])
  qed
next
  assume "- (2 ^ 43) \<le> sint (MemoryMb instanceType) \<and> sint (MemoryMb instanceType) < 2 ^ 43"
  then show "sint (MemoryMb instanceType * 1024 * 1024) = sint (MemoryMb instanceType) * 1024 * 1024"
    by (intro sint_memory) simp_all
next
  assume a: "processVMSSTemplate E template nodeName node0 pred w0 = Some (node1, w1)
      \<and> VMSSNodeTemplate template = Some vt \<and> OSDisk vt = Some disk
      \<and> DiskSizeGB disk = Some diskSize \<and> Status_Capacity node0 < length (heap w0)
      \<and> extractAllocatableResourcesFromScaleSet E (Tags vt) = Some res
      \<and> res ResourceEphemeralStorage = None"
  then have p: "processVMSSTemplate E template nodeName node0 pred w0 = Some (node1, w1)"
    and v: "VMSSNodeTemplate template = Some vt" and l: "Status_Capacity node0 < length (heap w0)"
    by simp_all
  from processVMSSTemplate_capacity [OF p v l] a
  show "capacityOf w1 node1 ResourceEphemeralStorage
            = Some (NewQuantity (scast diskSize * 1024 * 1024 * 1024) DecimalSI)"
    by (auto simp: map_add_def)
next
  show "sint ((scast diskSize :: 64 word) * 1024 * 1024 * 1024) = sint diskSize * 1024 * 1024 * 1024"
    by (rule sint_disk)
qed

section \<open>The functions on concrete inputs\<close>

theorem buildNodeTemplateFromVMSS_result_witness:
  "\<not> isl (buildNodeTemplateFromVMSS exampleEnv (exampleVMSS (Some ''eastus'')) Map.empty [])
   \<and> isl (buildNodeTemplateFromVMSS exampleEnv (exampleVMSS None) Map.empty [])
   \<and> (case buildNodeTemplateFromVMSS exampleEnv (exampleVMSS (Some ''eastus'')) Map.empty [] of
         Inr t \<Rightarrow> SkuName t = ''Standard_D2_v2'' \<and> Location t = ''eastus'' \<and> Zones t = []
       | Inl e \<Rightarrow> False)"
  using buildNodeTemplateFromVMSS_result [of exampleEnv "exampleVMSS (Some ''eastus'')" Map.empty "[]"]
    buildNodeTemplateFromVMSS_result [of exampleEnv "exampleVMSS None" Map.empty "[]"]
  by (auto simp: exampleVMSS_def split: sum.splits)

lemma fetchInstanceType_example:
  "fetchInstanceType exampleEnv (exampleTemplate ts inputTaints disk) False
     = Inr \<lparr>VCPU = 2, GPU = 0, MemoryMb = 7168\<rparr>"
  by (simp add: fetchInstanceType_def exampleEnv_def exampleTemplate_def)

lemma VMSSNodeTemplate_example:
  "VMSSNodeTemplate (exampleTemplate ts inputTaints disk)
     = Some \<lparr>InputLabels = Map.empty, InputTaints = inputTaints, Tags = ts, OSDisk = disk\<rparr>"
  by (simp add: exampleTemplate_def)

theorem buildNodeFromTemplate_allocatable_witness:
  "(case buildNodeFromTemplate exampleEnv ''pool'' (exampleTemplate [] [] (Some exampleDisk))
           False False (exampleWorld [] 1 0) of
      Ok (node, w') \<Rightarrow>
        Status_Allocatable node = Some (Status_Capacity node)
        \<and> allocatableOf w' node ResourceEphemeralStorage
            = capacityOf w' node ResourceEphemeralStorage
        \<and> capacityOf w' node ResourceEphemeralStorage
            = Some (NewQuantity 137438953472 DecimalSI)
    | _ \<Rightarrow> False)"
proof -
  let ?t = "exampleTemplate [] [] (Some exampleDisk)"
  obtain node w' where ok:
    "buildNodeFromTemplate exampleEnv ''pool'' ?t False False (exampleWorld [] 1 0) = Ok (node, w')"
    using buildNodeFromTemplate_total_VMSS [OF fetchInstanceType_example VMSSNodeTemplate_example]
    by fastforce
  from buildNodeFromTemplate_capacity_VMSS [OF ok VMSSNodeTemplate_example]
  have c: "capacityOf w' node ResourceEphemeralStorage = Some (NewQuantity 137438953472 DecimalSI)"
    by (auto simp: extractAllocatableResourcesFromScaleSet_def exampleDisk_def)
  from buildNodeFromTemplate_allocatable [OF ok] c ok show ?thesis by simp
qed

text \<open>
  A resources tag that names \<open>memory\<close> replaces the memory capacity computed from the
  instance type: with the tag value \<open>5\<close> the node of a SKU with 7168 MB has the memory
  capacity 5.
\<close>

theorem memory_overridden_by_tag:
  "resultCapacity
     (buildNodeFromTemplate exampleEnv ''pool'' (exampleTemplate memoryTag [] None) False False
        (exampleWorld [] 1 0)) ResourceMemory
     = Some (Quantity 5 0 DecimalSI)
   \<and> fetchInstanceType exampleEnv (exampleTemplate memoryTag [] None) False
       = Inr \<lparr>VCPU = 2, GPU = 0, MemoryMb = 7168\<rparr>
   \<and> Quantity 5 0 DecimalSI \<noteq> NewQuantity (7168 * 1024 * 1024) DecimalSI"
proof -
  let ?t = "exampleTemplate memoryTag [] None"
  have nn: "\<forall>(k, v) \<in> set memoryTag. v \<noteq> None" by (simp add: memoryTag_def)
  obtain node w' where ok:
    "buildNodeFromTemplate exampleEnv ''pool'' ?t False False (exampleWorld [] 1 0) = Ok (node, w')"
    using buildNodeFromTemplate_total_VMSS [OF fetchInstanceType_example VMSSNodeTemplate_example]
      nn by fastforce
  have r: "(case extractAllocatableResourcesFromScaleSet exampleEnv memoryTag of
     Some res \<Rightarrow> res ''memory'' = Some (Quantity 5 0 DecimalSI) | None \<Rightarrow> False)"
    by code_simp
  from buildNodeFromTemplate_capacity_VMSS [OF ok VMSSNodeTemplate_example] r
  have c: "capacityOf w' node ResourceMemory = Some (Quantity 5 0 DecimalSI)"
    by (auto simp: ResourceMemory_def map_add_def split: option.splits)
  from c ok show ?thesis
    by (simp add: fetchInstanceType_example NewQuantity_def resultCapacity_def)
qed

theorem template_capacity_quantities_witness:
  "(case buildNodeFromTemplate exampleEnv ''pool'' (exampleTemplate [] [] (Some exampleDisk))
           False False (exampleWorld [] 1 0) of
      Ok (node, w') \<Rightarrow>
        capacityOf w' node ResourceMemory = Some (NewQuantity (7168 * 1024 * 1024) DecimalSI)
    | _ \<Rightarrow> False)
   \<and> sint ((7168 :: 64 word) * 1024 * 1024) = 7168 * 1024 * 1024
   \<and> (case processVMSSTemplate exampleEnv (exampleTemplate [] [] (Some exampleDisk)) ''pool-asg-7''
           exampleNode False (exampleWorld [Map.empty] 1 0) of
      Some (node1, w1) \<Rightarrow>
        capacityOf w1 node1 ResourceEphemeralStorage
          = Some (NewQuantity (scast (128 :: 32 word) * 1024 * 1024 * 1024) DecimalSI)
    | None \<Rightarrow> False)
   \<and> sint ((scast (128 :: 32 word) :: 64 word) * 1024 * 1024 * 1024) = 128 * 1024 * 1024 * 1024"
proof -
  let ?t = "exampleTemplate [] [] (Some exampleDisk)"
  let ?vt = "\<lparr>InputLabels = Map.empty, InputTaints = [], Tags = [], OSDisk = Some exampleDisk\<rparr>"
  let ?it = "\<lparr>VCPU = 2, GPU = 0, MemoryMb = 7168\<rparr>"
  obtain node w' where ok:
    "buildNodeFromTemplate exampleEnv ''pool'' ?t False False (exampleWorld [] 1 0) = Ok (node, w')"
    using buildNodeFromTemplate_total_VMSS [OF fetchInstanceType_example VMSSNodeTemplate_example]
    by fastforce
  obtain node1 w1 where okp:
    "processVMSSTemplate exampleEnv ?t ''pool-asg-7'' exampleNode False (exampleWorld [Map.empty] 1 0)
       = Some (node1, w1)"
    using processVMSSTemplate_total [OF VMSSNodeTemplate_example] by fastforce
  have r: "extractAllocatableResourcesFromScaleSet exampleEnv (Tags ?vt) = Some Map.empty"
    by (simp add: extractAllocatableResourcesFromScaleSet_def)
  have d: "DiskSizeGB exampleDisk = Some 128" by (simp add: exampleDisk_def)
  have l: "Status_Capacity exampleNode < length (heap (exampleWorld [Map.empty] 1 0))"
    by (simp add: exampleNode_def exampleWorld_def)
  note t = template_capacity_quantities [of exampleEnv "''pool''" ?t False False
      "exampleWorld [] 1 0" node w' ?it "''pool-asg-7''" exampleNode
      "exampleWorld [Map.empty] 1 0" node1 w1 ?vt exampleDisk 128 Map.empty]
  from t ok okp r d l show ?thesis
    by (simp add: fetchInstanceType_example VMSSNodeTemplate_example)
qed

text \<open>
  C6. The node that \<open>processVMSSTemplate\<close> returns for a template with a non-empty
  \<open>InputTaints\<close> carries exactly the taints parsed from that string, whatever the tags
  are; the taints come from the tags only when \<open>InputTaints\<close> is empty. A node is
  returned whenever no tag value is nil.
\<close>

theorem processVMSSTemplate_taints_precedence:
  assumes "VMSSNodeTemplate template = Some vt"
  shows "(\<forall>node' w'. processVMSSTemplate E template nodeName node pred w = Some (node', w') \<longrightarrow>
            (InputTaints vt \<noteq> [] \<longrightarrow>
               Spec_Taints node' = extractTaintsFromSpecString (InputTaints vt))
            \<and> (InputTaints vt = [] \<longrightarrow>
               extractTaintsFromTags E (Tags vt) = Some (Spec_Taints node')))
    \<and> ((\<forall>(k, v) \<in> set (Tags vt). v \<noteq> None) \<longrightarrow>
          (\<exists>node' w'. processVMSSTemplate E template nodeName node pred w = Some (node', w')))"
  using processVMSSTemplate_taints [OF _ assms] processVMSSTemplate_total [OF assms]
  by blast

theorem processVMSSTemplate_taints_precedence_witness:
  "map_option (\<lambda>(node', w'). Spec_Taints node')
     (processVMSSTemplate exampleEnv (exampleTemplate taintTag ''dedicated=foo:NoSchedule'' None)
        ''pool-asg-7'' exampleNode False (exampleWorld [Map.empty] 1 0))
     = Some [\<lparr>Key = ''dedicated'', Value = ''foo'', Effect = ''NoSchedule''\<rparr>]
   \<and> map_option (\<lambda>(node', w'). Spec_Taints node')
     (processVMSSTemplate exampleEnv (exampleTemplate taintTag [] None)
        ''pool-asg-7'' exampleNode False (exampleWorld [Map.empty] 1 0))
     = Some [\<lparr>Key = ''gpu'', Value = ''true'', Effect = ''NoExecute''\<rparr>]"
proof -
  have nn: "\<forall>(k, v) \<in> set taintTag. v \<noteq> None" by (simp add: taintTag_def)
  have s: "extractTaintsFromSpecString ''dedicated=foo:NoSchedule''
      = [\<lparr>Key = ''dedicated'', Value = ''foo'', Effect = ''NoSchedule''\<rparr>]"
    by code_simp
  have g: "extractTaintsFromTags exampleEnv taintTag
      = Some [\<lparr>Key = ''gpu'', Value = ''true'', Effect = ''NoExecute''\<rparr>]"
    by code_simp
  note a = processVMSSTemplate_taints_precedence [where E = exampleEnv
      and nodeName = "''pool-asg-7''" and node = exampleNode and pred = False
      and w = "exampleWorld [Map.empty] 1 0",
      OF VMSSNodeTemplate_example [of taintTag "''dedicated=foo:NoSchedule''" None]]
  note b = processVMSSTemplate_taints_precedence [where E = exampleEnv
      and nodeName = "''pool-asg-7''" and node = exampleNode and pred = False
      and w = "exampleWorld [Map.empty] 1 0",
      OF VMSSNodeTemplate_example [of taintTag "[]" None]]
  from a nn s have 1: "map_option (\<lambda>(node', w'). Spec_Taints node')
     (processVMSSTemplate exampleEnv (exampleTemplate taintTag ''dedicated=foo:NoSchedule'' None)
        ''pool-asg-7'' exampleNode False (exampleWorld [Map.empty] 1 0))
     = Some [\<lparr>Key = ''dedicated'', Value = ''foo'', Effect = ''NoSchedule''\<rparr>]"
    by fastforce
  from b nn g have 2: "map_option (\<lambda>(node', w'). Spec_Taints node')
     (processVMSSTemplate exampleEnv (exampleTemplate taintTag [] None)
        ''pool-asg-7'' exampleNode False (exampleWorld [Map.empty] 1 0))
     = Some [\<lparr>Key = ''gpu'', Value = ''true'', Effect = ''NoExecute''\<rparr>]"
    by fastforce
  from 1 2 show ?thesis by simp
qed

section \<open>Two calls on one template\<close>

text \<open>The decimal numeral in the name of the node determines the number drawn.\<close>

lemma digitChar_inj:
  assumes "a < 10" and "b < 10" and "digitChar a = digitChar b"
  shows "a = b"
proof -
  have s: "x < 10 \<longleftrightarrow> x \<in> {0, 1, 2, 3, 4, 5, 6, 7, 8, 9}" for x :: nat
    by auto
  from assms show ?thesis
    unfolding s by (auto simp: digitChar_def)
qed

lemma itoa_nonempty: "itoa n \<noteq> []"
  by (subst itoa.simps) simp

lemma itoa_inj: "itoa n = itoa m \<Longrightarrow> n = m"
proof (induction n arbitrary: m rule: itoa.induct)
  case (1 n)
  show ?case
  proof (cases "n < 10")
    case True
    then have n: "itoa n = [digitChar n]" by (subst itoa.simps) simp
    show ?thesis
    proof (cases "m < 10")
      case m: True
      then have "itoa m = [digitChar m]" by (subst itoa.simps) simp
      with n "1.prems" True m show ?thesis by (auto dest: digitChar_inj)
    next
      case m: False
      then have "itoa m = itoa (m div 10) @ [digitChar (m mod 10)]" by (subst itoa.simps) simp
      with n "1.prems" itoa_nonempty [of "m div 10"] show ?thesis by simp
    qed
  next
    case False
    then have n: "itoa n = itoa (n div 10) @ [digitChar (n mod 10)]" by (subst itoa.simps) simp
    show ?thesis
    proof (cases "m < 10")
      case m: True
      then have "itoa m = [digitChar m]" by (subst itoa.simps) simp
      with n "1.prems" itoa_nonempty [of "n div 10"] show ?thesis by simp
    next
      case m: False
      then have "itoa m = itoa (m div 10) @ [digitChar (m mod 10)]" by (subst itoa.simps) simp
      with n "1.prems" have a: "itoa (n div 10) = itoa (m div 10)"
        and b: "digitChar (n mod 10) = digitChar (m mod 10)" by simp_all
      from "1.IH" [OF False a] have d: "n div 10 = m div 10" .
      from b have r: "n mod 10 = m mod 10"
        using digitChar_inj [of "n mod 10" "m mod 10"] by simp
      from d r show ?thesis by (metis div_mult_mod_eq)
    qed
  qed
qed

text \<open>\<open>BuildReadyConditions\<close> enters the result only as the conditions of the node.\<close>

lemma extractLabelsFromTagsLoop_env:
  "extractLabelsFromTagsLoop (E\<lparr>BuildReadyConditions := c\<rparr>) ts acc
     = extractLabelsFromTagsLoop E ts acc"
  by (induction ts arbitrary: acc) (auto simp: Let_def split: option.splits)

lemma extractTaintsFromTagsLoop_env:
  "extractTaintsFromTagsLoop (E\<lparr>BuildReadyConditions := c\<rparr>) ts acc
     = extractTaintsFromTagsLoop E ts acc"
  by (induction ts arbitrary: acc) (auto simp: Let_def split: option.splits)

lemma extractAllocatableResourcesLoop_env:
  "extractAllocatableResourcesLoop (E\<lparr>BuildReadyConditions := c\<rparr>) ts acc
     = extractAllocatableResourcesLoop E ts acc"
  by (induction ts arbitrary: acc) (auto simp: Let_def split: option.splits sum.splits)

lemma buildGenericLabels_env:
  "buildGenericLabels (E\<lparr>BuildReadyConditions := c\<rparr>) t nm g = buildGenericLabels E t nm g"
  by (auto simp: buildGenericLabels_def Let_def)

lemma predictLabels_env:
  "predictLabels (E\<lparr>BuildReadyConditions := c\<rparr>) t vt nl l = predictLabels E t vt nl l"
  by (auto simp: predictLabels_def Let_def split: option.splits)

lemma extract_env:
  "extractLabelsFromTags (E\<lparr>BuildReadyConditions := c\<rparr>) ts = extractLabelsFromTags E ts"
  "extractTaintsFromTags (E\<lparr>BuildReadyConditions := c\<rparr>) ts = extractTaintsFromTags E ts"
  "extractAllocatableResourcesFromScaleSet (E\<lparr>BuildReadyConditions := c\<rparr>) ts
     = extractAllocatableResourcesFromScaleSet E ts"
  by (simp_all add: extractLabelsFromTags_def extractTaintsFromTags_def
      extractAllocatableResourcesFromScaleSet_def extractLabelsFromTagsLoop_env
      extractTaintsFromTagsLoop_env extractAllocatableResourcesLoop_env)

lemma processVMSSTemplate_env:
  "processVMSSTemplate (E\<lparr>BuildReadyConditions := c\<rparr>) t nm node p w
     = processVMSSTemplate E t nm node p w"
proof (cases "VMSSNodeTemplate t")
  case None
  then show ?thesis by (simp add: processVMSSTemplate_def)
next
  case (Some vt)
  then show ?thesis
    by (cases "extractLabelsFromTags E (Tags vt)";
        cases "extractAllocatableResourcesFromScaleSet E (Tags vt)";
        cases "extractTaintsFromTags E (Tags vt)")
       (simp_all add: processVMSSTemplate_def Let_def case_prod_beta extract_env
          buildGenericLabels_env predictLabels_env)
qed

lemma processVMPoolTemplate_env:
  "processVMPoolTemplate (E\<lparr>BuildReadyConditions := c\<rparr>) t nm node w
     = processVMPoolTemplate E t nm node w"
  by (cases "VMPoolNodeTemplate t")
     (simp_all add: processVMPoolTemplate_def buildGenericLabels_env Let_def case_prod_beta)

lemma fetchInstanceType_env:
  "fetchInstanceType (E\<lparr>BuildReadyConditions := c\<rparr>) t dyn = fetchInstanceType E t dyn"
  by (auto simp: fetchInstanceType_def Let_def split: sum.splits option.splits)

lemma buildNodeFromTemplate_env:
  "buildNodeFromTemplate (E\<lparr>BuildReadyConditions := c\<rparr>) g t dyn p w
     = map_result (\<lambda>(node, w'). (node\<lparr>Status_Conditions := c\<rparr>, w'))
         (buildNodeFromTemplate E g t dyn p w)"
  by (simp add: buildNodeFromTemplate_unfold processVMSSTemplate_env processVMPoolTemplate_env
      fetchInstanceType_env Let_def split: sum.splits option.splits)

lemma result_env:
  "resultKind (map_result (\<lambda>(node, w'). (node\<lparr>Status_Conditions := c\<rparr>, w')) r) = resultKind r"
  "resultName (map_result (\<lambda>(node, w'). (node\<lparr>Status_Conditions := c\<rparr>, w')) r) = resultName r"
  "resultTaints (map_result (\<lambda>(node, w'). (node\<lparr>Status_Conditions := c\<rparr>, w')) r) = resultTaints r"
  "resultCapacity (map_result (\<lambda>(node, w'). (node\<lparr>Status_Conditions := c\<rparr>, w')) r) k
     = resultCapacity r k"
  by (cases r; auto simp: resultKind_def resultName_def resultTaints_def resultCapacity_def
      capacityOf_def)+

text \<open>The three loops over the tags, each under a permutation of the tags.\<close>

lemma extractTaintsFromTagsLoop_None_iff:
  "extractTaintsFromTagsLoop E ts acc = None \<longleftrightarrow> (\<exists>(k, v) \<in> set ts. v = None)"
  by (induction E ts acc rule: extractTaintsFromTagsLoop.induct)
     (auto simp: Let_def split: option.splits)

lemma extractLabelsFromTagsLoop_Cons:
  "extractLabelsFromTagsLoop E ((k, v) # rest) acc =
     (case tagLabelName E k of
        None \<Rightarrow> extractLabelsFromTagsLoop E rest acc
      | Some l \<Rightarrow>
          (case v of
             None \<Rightarrow> None
           | Some s \<Rightarrow> extractLabelsFromTagsLoop E rest (acc(l \<mapsto> s))))"
  by (simp add: tagLabelName_def Let_def)

lemma extractLabelsFromTagsLoop_None_iff:
  "extractLabelsFromTagsLoop E ts acc = None \<longleftrightarrow>
     (\<exists>(k, v) \<in> set ts. tagLabelName E k \<noteq> None \<and> v = None)"
proof (induction ts arbitrary: acc)
  case Nil
  then show ?case by simp
next
  case (Cons x ts)
  obtain k v where x: "x = (k, v)" by (cases x)
  show ?case
    unfolding x extractLabelsFromTagsLoop_Cons
    by (auto simp: Cons.IH split: option.splits)
qed

lemma extractAllocatableResourcesLoop_Cons:
  "extractAllocatableResourcesLoop E ((k, v) # rest) acc =
     (case tagResourceName E k of
        None \<Rightarrow> extractAllocatableResourcesLoop E rest acc
      | Some r \<Rightarrow>
          (case v of
             None \<Rightarrow> None
           | Some s \<Rightarrow>
               (case ParseQuantity E s of
                  Inl e \<Rightarrow> extractAllocatableResourcesLoop E rest acc
                | Inr q \<Rightarrow> extractAllocatableResourcesLoop E rest (acc(r \<mapsto> q)))))"
  by (simp add: tagResourceName_def Let_def)

lemma extractAllocatableResourcesLoop_None_iff:
  "extractAllocatableResourcesLoop E ts acc = None \<longleftrightarrow>
     (\<exists>(k, v) \<in> set ts. tagResourceName E k \<noteq> None \<and> v = None)"
proof (induction ts arbitrary: acc)
  case Nil
  then show ?case by simp
next
  case (Cons x ts)
  obtain k v where x: "x = (k, v)" by (cases x)
  show ?case
    unfolding x extractAllocatableResourcesLoop_Cons
    by (auto simp: Cons.IH split: option.splits sum.splits)
qed

lemma extractAllocatableResourcesLoop_unnamed:
  assumes "filter (\<lambda>(k, v). tagResourceName E k = Some r) ts = []"
    and "extractAllocatableResourcesLoop E ts acc = Some res"
  shows "res r = acc r"
  using assms
proof (induction ts arbitrary: acc)
  case Nil
  then show ?case by simp
next
  case (Cons x ts)
  obtain k v where x: "x = (k, v)" by (cases x)
  from Cons.prems(1) have n: "tagResourceName E k \<noteq> Some r"
    and f: "filter (\<lambda>(k, v). tagResourceName E k = Some r) ts = []"
    by (auto simp: x split: if_splits)
  from Cons.prems(2) n Cons.IH [OF f] show ?case
    unfolding x extractAllocatableResourcesLoop_Cons
    by (auto split: option.splits sum.splits)
qed

lemma extractAllocatableResourcesLoop_named_once:
  assumes "filter (\<lambda>(k, v). tagResourceName E k = Some r) ts = [(k0, v0)]"
    and "extractAllocatableResourcesLoop E ts acc = Some res"
  shows "res r = (case ParseQuantity E (the v0) of Inr q \<Rightarrow> Some q | Inl e \<Rightarrow> acc r)"
  using assms
proof (induction ts arbitrary: acc)
  case Nil
  then show ?case by simp
next
  case (Cons x ts)
  obtain k v where x: "x = (k, v)" by (cases x)
  show ?case
  proof (cases "tagResourceName E k = Some r")
    case True
    with Cons.prems(1) have kv: "k0 = k" "v0 = v"
      and f: "filter (\<lambda>(k, v). tagResourceName E k = Some r) ts = []"
      by (auto simp: x)
    from Cons.prems(2) True show ?thesis
      unfolding x extractAllocatableResourcesLoop_Cons kv
      by (auto split: option.splits sum.splits
          dest: extractAllocatableResourcesLoop_unnamed [OF f])
  next
    case False
    with Cons.prems(1) have f: "filter (\<lambda>(k, v). tagResourceName E k = Some r) ts = [(k0, v0)]"
      by (auto simp: x)
    from Cons.prems(2) False Cons.IH [OF f] show ?thesis
      unfolding x extractAllocatableResourcesLoop_Cons
      by (auto split: option.splits sum.splits)
  qed
qed

lemma mset_short_eq:
  assumes "mset xs = mset ys" and "length xs \<le> 1"
  shows "xs = ys"
proof (cases xs)
  case Nil
  with assms show ?thesis by simp
next
  case (Cons a as)
  with assms(2) have xs: "xs = [a]" by simp
  with assms(1) have "mset ys = {#a#}" by simp
  then have "ys = [a]" by (simp add: mset_single_iff_right)
  with xs show ?thesis by simp
qed

lemma extractAllocatableResources_permuted:
  assumes "mset ts1 = mset ts2"
    and "length (filter (\<lambda>(k, v). tagResourceName E k = Some r) ts1) \<le> 1"
    and "extractAllocatableResourcesFromScaleSet E ts1 = Some res1"
    and "extractAllocatableResourcesFromScaleSet E ts2 = Some res2"
  shows "res1 r = res2 r"
proof -
  let ?P = "\<lambda>(k, v). tagResourceName E k = Some r"
  from assms(1) have "mset (filter ?P ts1) = mset (filter ?P ts2)" by simp
  from mset_short_eq [OF this assms(2)] have e: "filter ?P ts1 = filter ?P ts2" .
  show ?thesis
  proof (cases "filter ?P ts1")
    case Nil
    with e have f1: "filter ?P ts1 = []" and f2: "filter ?P ts2 = []" by simp_all
    from extractAllocatableResourcesLoop_unnamed [OF f1] assms(3) have "res1 r = None"
      by (simp add: extractAllocatableResourcesFromScaleSet_def)
    moreover from extractAllocatableResourcesLoop_unnamed [OF f2] assms(4) have "res2 r = None"
      by (simp add: extractAllocatableResourcesFromScaleSet_def)
    ultimately show ?thesis by simp
  next
    case (Cons x xs)
    with assms(2) have f: "filter ?P ts1 = [x]" by simp
    obtain k0 v0 where x: "x = (k0, v0)" by (cases x)
    from f e have f1: "filter ?P ts1 = [(k0, v0)]" and f2: "filter ?P ts2 = [(k0, v0)]"
      by (simp_all add: x)
    from assms(3) have "res1 r = (case ParseQuantity E (the v0) of Inr q \<Rightarrow> Some q | Inl e \<Rightarrow> None)"
      unfolding extractAllocatableResourcesFromScaleSet_def
      by (rule extractAllocatableResourcesLoop_named_once [OF f1, of Map.empty res1, simplified])
    moreover from assms(4)
    have "res2 r = (case ParseQuantity E (the v0) of Inr q \<Rightarrow> Some q | Inl e \<Rightarrow> None)"
      unfolding extractAllocatableResourcesFromScaleSet_def
      by (rule extractAllocatableResourcesLoop_named_once [OF f2, of Map.empty res2, simplified])
    ultimately show ?thesis by simp
  qed
qed

lemma extractTaintsFromTagsLoop_Some:
  "extractTaintsFromTagsLoop E ts acc = Some res \<Longrightarrow>
     res = acc @ concat (map (\<lambda>x. the (extractTaintsFromTagsLoop E [x] [])) ts)"
  by (induction E ts acc arbitrary: res rule: extractTaintsFromTagsLoop.induct)
     (auto simp: Let_def split: option.splits if_splits)

lemma mset_concat_map_permuted:
  "mset xs = mset ys \<Longrightarrow> mset (concat (map f xs)) = mset (concat (map f ys))"
proof -
  have "mset (concat (map f zs)) = (\<Sum>x\<in>#mset zs. mset (f x))" for zs
    by (induction zs) simp_all
  then show "mset xs = mset ys \<Longrightarrow> mset (concat (map f xs)) = mset (concat (map f ys))"
    by simp
qed

lemma extractTaintsFromTags_permuted:
  assumes "mset ts1 = mset ts2"
    and "extractTaintsFromTags E ts1 = Some res1"
    and "extractTaintsFromTags E ts2 = Some res2"
  shows "mset res1 = mset res2"
  using assms extractTaintsFromTagsLoop_Some [of E ts1 "[]" res1]
    extractTaintsFromTagsLoop_Some [of E ts2 "[]" res2]
    mset_concat_map_permuted [of ts1 ts2 "\<lambda>x. the (extractTaintsFromTagsLoop E [x] [])"]
  by (simp add: extractTaintsFromTags_def)

lemma extract_None_permuted:
  assumes "mset ts1 = mset ts2"
  shows "extractLabelsFromTags E ts1 = None \<longleftrightarrow> extractLabelsFromTags E ts2 = None"
    and "extractTaintsFromTags E ts1 = None \<longleftrightarrow> extractTaintsFromTags E ts2 = None"
    and "extractAllocatableResourcesFromScaleSet E ts1 = None
          \<longleftrightarrow> extractAllocatableResourcesFromScaleSet E ts2 = None"
proof -
  from assms have s: "set ts1 = set ts2" by (rule mset_eq_setD)
  show "extractLabelsFromTags E ts1 = None \<longleftrightarrow> extractLabelsFromTags E ts2 = None"
    unfolding extractLabelsFromTags_def extractLabelsFromTagsLoop_None_iff s ..
  show "extractTaintsFromTags E ts1 = None \<longleftrightarrow> extractTaintsFromTags E ts2 = None"
    unfolding extractTaintsFromTags_def extractTaintsFromTagsLoop_None_iff s ..
  show "extractAllocatableResourcesFromScaleSet E ts1 = None
          \<longleftrightarrow> extractAllocatableResourcesFromScaleSet E ts2 = None"
    unfolding extractAllocatableResourcesFromScaleSet_def
      extractAllocatableResourcesLoop_None_iff s ..
qed

lemma processVMSSTemplate_None_iff:
  assumes "VMSSNodeTemplate t = Some vt"
  shows "processVMSSTemplate E t nm node p w = None \<longleftrightarrow>
     (InputLabels vt = Map.empty \<and> extractLabelsFromTags E (Tags vt) = None)
     \<or> extractAllocatableResourcesFromScaleSet E (Tags vt) = None
     \<or> (InputTaints vt = [] \<and> extractTaintsFromTags E (Tags vt) = None)"
  using assms
  by (cases "extractLabelsFromTags E (Tags vt)";
      cases "extractAllocatableResourcesFromScaleSet E (Tags vt)";
      cases "extractTaintsFromTags E (Tags vt)")
     (simp_all add: processVMSSTemplate_def Let_def case_prod_beta)

lemma reordered_simps:
  "SkuName (reordered ts ls t) = SkuName t"
  "VMPoolNodeTemplate (reordered ts ls t)
     = map_option (\<lambda>pt. pt\<lparr>vmpool_Labels := ls\<rparr>) (VMPoolNodeTemplate t)"
  "VMSSNodeTemplate (reordered ts ls t) = map_option (\<lambda>vt. vt\<lparr>Tags := ts\<rparr>) (VMSSNodeTemplate t)"
  "capacityBeforeTemplate (reordered ts ls t) it = capacityBeforeTemplate t it"
  by (simp_all add: reordered_def capacityBeforeTemplate_def)

lemma resultKind_Ok: "resultKind r = Ok () \<longleftrightarrow> (\<exists>n w. r = Ok (n, w))"
  by (cases r) (auto simp: resultKind_def)

lemma result_not_Ok:
  assumes "resultKind r \<noteq> Ok ()"
  shows "resultName r = None" and "resultTaints r = None" and "resultCapacity r k = None"
  using assms
  by (cases r; simp add: resultKind_def resultName_def resultTaints_def resultCapacity_def)+

lemma buildNodeFromTemplate_kind:
  "resultKind (buildNodeFromTemplate E g t dyn p w) =
     (case fetchInstanceType E t dyn of
        Inl e \<Rightarrow> Err e
      | Inr it \<Rightarrow>
          (case VMSSNodeTemplate t of
             Some vt \<Rightarrow>
               if (InputLabels vt = Map.empty \<and> extractLabelsFromTags E (Tags vt) = None)
                  \<or> extractAllocatableResourcesFromScaleSet E (Tags vt) = None
                  \<or> (InputTaints vt = [] \<and> extractTaintsFromTags E (Tags vt) = None)
               then Panic else Ok ()
           | None \<Rightarrow>
               if VMPoolNodeTemplate t \<noteq> None then Ok ()
               else Err (Errorf ''invalid node template: missing both VMSS and VMPool templates'')))"
proof (cases "fetchInstanceType E t dyn")
  case (Inl e)
  then show ?thesis by (simp add: buildNodeFromTemplate_unfold resultKind_def)
next
  case (Inr it)
  show ?thesis
  proof (cases "VMSSNodeTemplate t")
    case None
    show ?thesis
    proof (cases "VMPoolNodeTemplate t")
      case n: None
      with None Inr show ?thesis by (simp add: buildNodeFromTemplate_unfold resultKind_def)
    next
      case (Some pt)
      from buildNodeFromTemplate_total_VMPool [OF Inr None Some, of g p w] None Inr Some
      show ?thesis by (auto simp: resultKind_def)
    qed
  next
    case (Some vt)
    let ?nm = "g @ ''-asg-'' @ itoa (shd (rand w) mod 2 ^ 63)"
    let ?w0 = "\<lparr>heap = heap w @ [capacityBeforeTemplate t it], rand = stl (rand w)\<rparr>"
    let ?p = "processVMSSTemplate E t ?nm (nodeBeforeTemplate ?nm (length (heap w))) p ?w0"
    have b: "buildNodeFromTemplate E g t dyn p w =
        (case ?p of None \<Rightarrow> Panic
         | Some (node, w) \<Rightarrow> Ok (node\<lparr>Status_Conditions := BuildReadyConditions E\<rparr>, w))"
      using Inr Some by (simp add: buildNodeFromTemplate_unfold Let_def)
    show ?thesis
    proof (cases ?p)
      case None
      with processVMSSTemplate_None_iff [OF Some, of E ?nm _ p ?w0] b Inr Some show ?thesis
        by (simp add: resultKind_def)
    next
      case s: (Some nw)
      with processVMSSTemplate_None_iff [OF Some, of E ?nm "nodeBeforeTemplate ?nm (length (heap w))" p ?w0]
      have "\<not> ((InputLabels vt = Map.empty \<and> extractLabelsFromTags E (Tags vt) = None)
                  \<or> extractAllocatableResourcesFromScaleSet E (Tags vt) = None
                  \<or> (InputTaints vt = [] \<and> extractTaintsFromTags E (Tags vt) = None))"
        by simp
      with s b Inr Some show ?thesis
        by (cases nw) (simp add: resultKind_def)
    qed
  qed
qed

lemma buildNodeFromTemplate_name:
  assumes "buildNodeFromTemplate E g t dyn p w = Ok (node, w')"
  shows "Name node = g @ ''-asg-'' @ itoa (shd (rand w) mod 2 ^ 63)"
  using buildNodeFromTemplate_Ok [OF assms]
  by (auto dest!: processVMSSTemplate_fields processVMPoolTemplate_fields
      simp: nodeBeforeTemplate_def)

lemma buildNodeFromTemplate_taints_VMSS:
  assumes "buildNodeFromTemplate E g t dyn p w = Ok (node, w')" and "VMSSNodeTemplate t = Some vt"
  shows "(InputTaints vt \<noteq> [] \<longrightarrow> Spec_Taints node = extractTaintsFromSpecString (InputTaints vt))
    \<and> (InputTaints vt = [] \<longrightarrow> extractTaintsFromTags E (Tags vt) = Some (Spec_Taints node))"
  using buildNodeFromTemplate_Ok [OF assms(1)] assms(2)
  by (auto dest!: processVMSSTemplate_taints [where vt = vt])

lemma processVMPoolTemplate_taints:
  assumes "processVMPoolTemplate E t nm node w = Some (n', w')" and "VMPoolNodeTemplate t = Some pt"
  shows "Spec_Taints n' = Taints pt"
  using assms by (auto simp: processVMPoolTemplate_def Let_def split: prod.splits)

lemma buildNodeFromTemplate_taints_VMPool:
  assumes "buildNodeFromTemplate E g t dyn p w = Ok (node, w')" and "VMSSNodeTemplate t = None"
    and "VMPoolNodeTemplate t = Some pt"
  shows "Spec_Taints node = Taints pt"
  using buildNodeFromTemplate_Ok [OF assms(1)] assms(2,3)
  by (auto dest!: processVMPoolTemplate_taints [where pt = pt])

lemma fetchInstanceType_reordered:
  assumes "GetInstanceTypeStatically E (reordered ts ls t) = GetInstanceTypeStatically E t"
    and "GetInstanceTypeDynamically E (reordered ts ls t) = GetInstanceTypeDynamically E t"
  shows "fetchInstanceType E (reordered ts ls t) dyn = fetchInstanceType E t dyn"
  unfolding fetchInstanceType_def assms ..

lemma buildNodeFromTemplate_kind_permuted:
  assumes "mset ts = mset (tagsOf t)"
    and "fetchInstanceType E (reordered ts ls t) dyn = fetchInstanceType E t dyn"
  shows "resultKind (buildNodeFromTemplate E g (reordered ts ls t) dyn p w2)
       = resultKind (buildNodeFromTemplate E g t dyn p w1)"
proof (cases "VMSSNodeTemplate t")
  case None
  show ?thesis unfolding buildNodeFromTemplate_kind assms(2) using None
    by (cases "fetchInstanceType E t dyn") (simp_all add: reordered_simps)
next
  case (Some vt)
  with assms(1) have m: "mset ts = mset (Tags vt)" by (simp add: tagsOf_def)
  show ?thesis unfolding buildNodeFromTemplate_kind assms(2)
    using Some extract_None_permuted [OF m, of E]
    by (cases "fetchInstanceType E t dyn") (simp_all add: reordered_simps)
qed

lemma buildNodeFromTemplate_Ok_permuted:
  assumes m: "mset ts = mset (tagsOf t)"
    and f: "fetchInstanceType E (reordered ts ls t) dyn = fetchInstanceType E t dyn"
    and o1: "buildNodeFromTemplate E g t dyn p w1 = Ok (n1, w1')"
    and o2: "buildNodeFromTemplate E g (reordered ts ls t) dyn p w2 = Ok (n2, w2')"
  shows "(Name n2 = Name n1 \<longleftrightarrow> shd (rand w2) mod 2 ^ 63 = shd (rand w1) mod 2 ^ 63)
    \<and> mset (Spec_Taints n2) = mset (Spec_Taints n1)
    \<and> ((\<forall>vt. VMSSNodeTemplate t = Some vt \<longrightarrow> InputTaints vt \<noteq> [])
        \<longrightarrow> Spec_Taints n2 = Spec_Taints n1)
    \<and> (\<forall>r. length (filter (\<lambda>(k, v). tagResourceName E k = Some r) (tagsOf t)) \<le> 1
          \<longrightarrow> capacityOf w2' n2 r = capacityOf w1' n1 r)"
proof -
  have name: "Name n2 = Name n1 \<longleftrightarrow> shd (rand w2) mod 2 ^ 63 = shd (rand w1) mod 2 ^ 63"
    using buildNodeFromTemplate_name [OF o1] buildNodeFromTemplate_name [OF o2]
    by (auto dest: itoa_inj)
  show ?thesis
  proof (cases "VMSSNodeTemplate t")
    case None
    then have n2: "VMSSNodeTemplate (reordered ts ls t) = None" by (simp add: reordered_simps)
    from buildNodeFromTemplate_Ok [OF o1] None obtain pt where pt: "VMPoolNodeTemplate t = Some pt"
      by auto
    then have pt2: "VMPoolNodeTemplate (reordered ts ls t) = Some (pt\<lparr>vmpool_Labels := ls\<rparr>)"
      by (simp add: reordered_simps)
    have t: "Spec_Taints n2 = Spec_Taints n1"
      using buildNodeFromTemplate_taints_VMPool [OF o1 None pt]
        buildNodeFromTemplate_taints_VMPool [OF o2 n2 pt2] by simp
    have c: "capacityOf w2' n2 = capacityOf w1' n1"
      using buildNodeFromTemplate_capacity_VMPool [OF o1 None]
        buildNodeFromTemplate_capacity_VMPool [OF o2 n2] f
      by (auto simp: reordered_simps)
    from name t c show ?thesis by simp
  next
    case (Some vt)
    let ?vt2 = "vt\<lparr>Tags := ts\<rparr>"
    from Some have s2: "VMSSNodeTemplate (reordered ts ls t) = Some ?vt2" by (simp add: reordered_simps)
    from Some m have mt: "mset (Tags vt) = mset ts" by (simp add: tagsOf_def)
    note t1 = buildNodeFromTemplate_taints_VMSS [OF o1 Some]
    note t2 = buildNodeFromTemplate_taints_VMSS [OF o2 s2]
    have ts_eq: "Spec_Taints n2 = Spec_Taints n1" if "InputTaints vt \<noteq> []"
      using t1 t2 that by simp
    have ts_mset: "mset (Spec_Taints n2) = mset (Spec_Taints n1)"
    proof (cases "InputTaints vt = []")
      case True
      with t1 t2 have "extractTaintsFromTags E (Tags vt) = Some (Spec_Taints n1)"
        and "extractTaintsFromTags E ts = Some (Spec_Taints n2)" by simp_all
      from extractTaintsFromTags_permuted [OF mt this] show ?thesis by simp
    next
      case False
      with ts_eq show ?thesis by simp
    qed
    from buildNodeFromTemplate_capacity_VMSS [OF o1 Some] obtain it1 res1 where
      i1: "fetchInstanceType E t dyn = Inr it1" and
      r1: "extractAllocatableResourcesFromScaleSet E (Tags vt) = Some res1" and
      c1: "capacityOf w1' n1 =
          (if OSDisk vt \<noteq> None \<and> DiskSizeGB (the (OSDisk vt)) \<noteq> None
           then (capacityBeforeTemplate t it1)(ResourceEphemeralStorage \<mapsto>
                  NewQuantity (scast (the (DiskSizeGB (the (OSDisk vt)))) * 1024 * 1024 * 1024) DecimalSI)
           else capacityBeforeTemplate t it1) ++ res1"
      by blast
    from buildNodeFromTemplate_capacity_VMSS [OF o2 s2] obtain it2 res2 where
      i2: "fetchInstanceType E (reordered ts ls t) dyn = Inr it2" and
      r2: "extractAllocatableResourcesFromScaleSet E ts = Some res2" and
      c2: "capacityOf w2' n2 =
          (if OSDisk vt \<noteq> None \<and> DiskSizeGB (the (OSDisk vt)) \<noteq> None
           then (capacityBeforeTemplate t it2)(ResourceEphemeralStorage \<mapsto>
                  NewQuantity (scast (the (DiskSizeGB (the (OSDisk vt)))) * 1024 * 1024 * 1024) DecimalSI)
           else capacityBeforeTemplate t it2) ++ res2"
      by (auto simp: reordered_simps)
    from i1 i2 f have it: "it2 = it1" by simp
    have cap: "capacityOf w2' n2 r = capacityOf w1' n1 r"
      if "length (filter (\<lambda>(k, v). tagResourceName E k = Some r) (tagsOf t)) \<le> 1" for r
    proof -
      from that Some have l: "length (filter (\<lambda>(k, v). tagResourceName E k = Some r) (Tags vt)) \<le> 1"
        by (simp add: tagsOf_def)
      from extractAllocatableResources_permuted [OF mt l r1 r2] have "res1 r = res2 r" .
      then show ?thesis unfolding c1 c2 it by (simp add: map_add_def)
    qed
    from name ts_mset ts_eq cap Some show ?thesis by simp
  qed
qed

text \<open>The labels: the loop over the tags that name labels, the loop that copies every tag,
  and the loop over the labels of a VM pool.\<close>

lemma extractLabelsFromTagsLoop_unnamed:
  assumes "filter (\<lambda>(k, v). tagLabelName E k = Some l) ts = []"
    and "extractLabelsFromTagsLoop E ts acc = Some res"
  shows "res l = acc l"
  using assms
proof (induction ts arbitrary: acc)
  case Nil
  then show ?case by simp
next
  case (Cons x ts)
  obtain k v where x: "x = (k, v)" by (cases x)
  from Cons.prems(1) have n: "tagLabelName E k \<noteq> Some l"
    and f: "filter (\<lambda>(k, v). tagLabelName E k = Some l) ts = []"
    by (auto simp: x split: if_splits)
  from Cons.prems(2) n Cons.IH [OF f] show ?case
    unfolding x extractLabelsFromTagsLoop_Cons
    by (auto split: option.splits)
qed

lemma extractLabelsFromTagsLoop_named_once:
  assumes "filter (\<lambda>(k, v). tagLabelName E k = Some l) ts = [(k0, v0)]"
    and "extractLabelsFromTagsLoop E ts acc = Some res"
  shows "res l = v0"
  using assms
proof (induction ts arbitrary: acc)
  case Nil
  then show ?case by simp
next
  case (Cons x ts)
  obtain k v where x: "x = (k, v)" by (cases x)
  show ?case
  proof (cases "tagLabelName E k = Some l")
    case True
    with Cons.prems(1) have kv: "k0 = k" "v0 = v"
      and f: "filter (\<lambda>(k, v). tagLabelName E k = Some l) ts = []"
      by (auto simp: x)
    from Cons.prems(2) True show ?thesis
      unfolding x extractLabelsFromTagsLoop_Cons kv
      by (auto split: option.splits dest: extractLabelsFromTagsLoop_unnamed [OF f])
  next
    case False
    with Cons.prems(1) have f: "filter (\<lambda>(k, v). tagLabelName E k = Some l) ts = [(k0, v0)]"
      by (auto simp: x)
    from Cons.prems(2) False Cons.IH [OF f] show ?thesis
      unfolding x extractLabelsFromTagsLoop_Cons
      by (auto split: option.splits)
  qed
qed

lemma extractLabelsFromTags_permuted:
  assumes "mset ts1 = mset ts2"
    and "\<forall>l. length (filter (\<lambda>(k, v). tagLabelName E k = Some l) ts1) \<le> 1"
    and "extractLabelsFromTags E ts1 = Some res1"
    and "extractLabelsFromTags E ts2 = Some res2"
  shows "res1 = res2"
proof
  fix l
  let ?P = "\<lambda>(k, v). tagLabelName E k = Some l"
  from assms(2) have le: "length (filter ?P ts1) \<le> 1" by blast
  from assms(1) have "mset (filter ?P ts1) = mset (filter ?P ts2)" by simp
  from mset_short_eq [OF this le] have e: "filter ?P ts1 = filter ?P ts2" .
  show "res1 l = res2 l"
  proof (cases "filter ?P ts1")
    case Nil
    with e have f1: "filter ?P ts1 = []" and f2: "filter ?P ts2 = []" by simp_all
    from extractLabelsFromTagsLoop_unnamed [OF f1] assms(3) have "res1 l = None"
      by (simp add: extractLabelsFromTags_def)
    moreover from extractLabelsFromTagsLoop_unnamed [OF f2] assms(4) have "res2 l = None"
      by (simp add: extractLabelsFromTags_def)
    ultimately show ?thesis by simp
  next
    case (Cons x xs)
    with le have f: "filter ?P ts1 = [x]" by simp
    obtain k0 v0 where x: "x = (k0, v0)" by (cases x)
    from f e have f1: "filter ?P ts1 = [(k0, v0)]" and f2: "filter ?P ts2 = [(k0, v0)]"
      by (simp_all add: x)
    from assms(3) have "res1 l = v0"
      unfolding extractLabelsFromTags_def by (rule extractLabelsFromTagsLoop_named_once [OF f1])
    moreover from assms(4) have "res2 l = v0"
      unfolding extractLabelsFromTags_def by (rule extractLabelsFromTagsLoop_named_once [OF f2])
    ultimately show ?thesis by simp
  qed
qed

lemma tagsToLabels_map_of:
  "tagsToLabels ts m
     = m ++ map_of (rev (map (\<lambda>(k, v). (k, case v of Some s \<Rightarrow> s | None \<Rightarrow> [])) ts))"
proof (induction ts arbitrary: m)
  case Nil
  then show ?case by simp
next
  case (Cons x ts)
  obtain k v where x: "x = (k, v)" by (cases x)
  show ?case unfolding x
    by (auto simp: Cons.IH map_add_def fun_eq_iff split: option.splits)
qed

lemma tagsToLabels_permuted:
  assumes "mset ts1 = mset ts2" and "distinct (map fst ts1)"
  shows "tagsToLabels ts1 m = tagsToLabels ts2 m"
proof -
  let ?f = "\<lambda>(k, v). (k, case v of Some s \<Rightarrow> s | None \<Rightarrow> [])"
  have fst: "fst \<circ> ?f = fst" by (auto simp: fun_eq_iff)
  from assms(1) have "mset (map fst ts1) = mset (map fst ts2)" by simp
  with assms(2) have d2: "distinct (map fst ts2)" by (metis mset_eq_imp_distinct_iff)
  from assms(1) have s: "set ts1 = set ts2" by (rule mset_eq_setD)
  have "map_of (rev (map ?f ts1)) = map_of (rev (map ?f ts2))"
    using assms(2) d2 s
    by (subst map_of_inject_set) (simp_all add: rev_map [symmetric] fst)
  then show ?thesis by (simp add: tagsToLabels_map_of)
qed

lemma poolLabelsLoop_map_of:
  "poolLabelsLoop ls m = m ++ map_of (rev (map (\<lambda>(k, v). (k, to_String v)) ls))"
proof (induction ls arbitrary: m)
  case Nil
  then show ?case by simp
next
  case (Cons x ls)
  obtain k v where x: "x = (k, v)" by (cases x)
  show ?case unfolding x
    by (auto simp: Cons.IH map_add_def fun_eq_iff split: option.splits)
qed

lemma poolLabelsLoop_permuted:
  assumes "mset ls1 = mset ls2" and "distinct (map fst ls1)"
  shows "poolLabelsLoop ls1 m = poolLabelsLoop ls2 m"
proof -
  let ?f = "\<lambda>(k, v). (k, to_String v)"
  have fst: "fst \<circ> ?f = fst" by (auto simp: fun_eq_iff)
  from assms(1) have "mset (map fst ls1) = mset (map fst ls2)" by simp
  with assms(2) have d2: "distinct (map fst ls2)" by (metis mset_eq_imp_distinct_iff)
  from assms(1) have s: "set ls1 = set ls2" by (rule mset_eq_setD)
  have "map_of (rev (map ?f ls1)) = map_of (rev (map ?f ls2))"
    using assms(2) d2 s
    by (subst map_of_inject_set) (simp_all add: rev_map [symmetric] fst)
  then show ?thesis by (simp add: poolLabelsLoop_map_of)
qed

lemma buildGenericLabels_reordered:
  "buildGenericLabels E (reordered ts ls t) nm g = buildGenericLabels E t nm g"
  by (simp add: buildGenericLabels_def reordered_def Let_def)

lemma predictLabels_reordered:
  "predictLabels E (reordered ts ls t) (vt\<lparr>Tags := ts\<rparr>) nl l = predictLabels E t vt nl l"
  by (simp add: predictLabels_def reordered_def)

lemma processVMSSTemplate_labels:
  assumes "processVMSSTemplate E t nm node p w = Some (n', w')" and "VMSSNodeTemplate t = Some vt"
  shows "\<exists>labels.
      (if InputLabels vt \<noteq> Map.empty then Some (InputLabels vt)
       else extractLabelsFromTags E (Tags vt)) = Some labels
      \<and> Labels n' =
          JoinStringMaps E
            (JoinStringMaps E (tagsToLabels (Tags vt) (Labels node))
               (fst (buildGenericLabels E t nm (rand w))))
            (if p
             then predictLabels E t vt
                    (JoinStringMaps E (tagsToLabels (Tags vt) (Labels node))
                       (fst (buildGenericLabels E t nm (rand w))))
                    labels
             else labels)"
  using assms
  by (auto simp: processVMSSTemplate_def Let_def split: option.splits prod.splits if_splits)

lemma processVMPoolTemplate_labels:
  assumes "processVMPoolTemplate E t nm node w = Some (n', w')" and "VMPoolNodeTemplate t = Some pt"
  shows "Labels n' =
      JoinStringMaps E (Labels node)
        (poolLabelsLoop (vmpool_Labels pt)
           ((fst (buildGenericLabels E t nm (rand w)))(agentPoolNodeLabelKey \<mapsto> AgentPoolName pt)))"
  using assms by (auto simp: processVMPoolTemplate_def Let_def split: prod.splits)

lemma buildGenericLabels_draw:
  assumes "Zones t \<noteq> [] \<longrightarrow> shd g mod length (Zones t) = shd g' mod length (Zones t)"
  shows "fst (buildGenericLabels E t nm g) = fst (buildGenericLabels E t nm g')"
  using assms by (simp add: buildGenericLabels_def Intn_def Let_def)

lemma resultLabel_not_Ok:
  assumes "resultKind r \<noteq> Ok ()"
  shows "resultLabel r k = None"
  using assms by (cases r; simp add: resultKind_def resultLabel_def)

lemma resultLabel_env:
  "resultLabel (map_result (\<lambda>(node, w'). (node\<lparr>Status_Conditions := c\<rparr>, w')) r) k = resultLabel r k"
  by (cases r; auto simp: resultLabel_def)

lemma buildNodeFromTemplate_labels_permuted:
  assumes m: "mset ts = mset (tagsOf t)"
    and o1: "buildNodeFromTemplate E g t dyn p w1 = Ok (n1, w1')"
    and o2: "buildNodeFromTemplate E g (reordered ts ls t) dyn p w2 = Ok (n2, w2')"
    and ml: "mset ls = mset (poolLabelsOf t)"
    and d: "distinct (map fst (tagsOf t))"
    and dl: "distinct (map fst (poolLabelsOf t))"
    and u: "\<forall>l. length (filter (\<lambda>(k, v). tagLabelName E k = Some l) (tagsOf t)) \<le> 1"
    and n: "shd (rand w2) mod 2 ^ 63 = shd (rand w1) mod 2 ^ 63"
    and z: "Zones t \<noteq> [] \<longrightarrow>
             shd (stl (rand w2)) mod length (Zones t) = shd (stl (rand w1)) mod length (Zones t)"
  shows "Labels n2 = Labels n1"
proof -
  let ?nm = "g @ ''-asg-'' @ itoa (shd (rand w1) mod 2 ^ 63)"
  have gl: "fst (buildGenericLabels E t ?nm (stl (rand w2)))
          = fst (buildGenericLabels E t ?nm (stl (rand w1)))"
    using z by (intro buildGenericLabels_draw) simp
  from buildNodeFromTemplate_Ok [OF o1] obtain it1 m1 where
    c1: "n1 = m1\<lparr>Status_Conditions := BuildReadyConditions E\<rparr>" and
    p1: "(VMSSNodeTemplate t \<noteq> None
            \<and> processVMSSTemplate E t ?nm (nodeBeforeTemplate ?nm (length (heap w1))) p
                 \<lparr>heap = heap w1 @ [capacityBeforeTemplate t it1], rand = stl (rand w1)\<rparr>
               = Some (m1, w1'))
          \<or> (VMSSNodeTemplate t = None \<and> VMPoolNodeTemplate t \<noteq> None
            \<and> processVMPoolTemplate E t ?nm (nodeBeforeTemplate ?nm (length (heap w1)))
                 \<lparr>heap = heap w1 @ [capacityBeforeTemplate t it1], rand = stl (rand w1)\<rparr>
               = Some (m1, w1'))"
    by blast
  from buildNodeFromTemplate_Ok [OF o2] n obtain it2 m2 where
    c2: "n2 = m2\<lparr>Status_Conditions := BuildReadyConditions E\<rparr>" and
    p2: "(VMSSNodeTemplate (reordered ts ls t) \<noteq> None
            \<and> processVMSSTemplate E (reordered ts ls t) ?nm (nodeBeforeTemplate ?nm (length (heap w2))) p
                 \<lparr>heap = heap w2 @ [capacityBeforeTemplate (reordered ts ls t) it2], rand = stl (rand w2)\<rparr>
               = Some (m2, w2'))
          \<or> (VMSSNodeTemplate (reordered ts ls t) = None \<and> VMPoolNodeTemplate (reordered ts ls t) \<noteq> None
            \<and> processVMPoolTemplate E (reordered ts ls t) ?nm (nodeBeforeTemplate ?nm (length (heap w2)))
                 \<lparr>heap = heap w2 @ [capacityBeforeTemplate (reordered ts ls t) it2], rand = stl (rand w2)\<rparr>
               = Some (m2, w2'))"
    by auto
  have "Labels m2 = Labels m1"
  proof (cases "VMSSNodeTemplate t")
    case None
    with p1 obtain pt where pt: "VMPoolNodeTemplate t = Some pt" by auto
    from None p1 have q1: "processVMPoolTemplate E t ?nm (nodeBeforeTemplate ?nm (length (heap w1)))
                 \<lparr>heap = heap w1 @ [capacityBeforeTemplate t it1], rand = stl (rand w1)\<rparr>
               = Some (m1, w1')" by simp
    from None p2 have q2: "processVMPoolTemplate E (reordered ts ls t) ?nm
                 (nodeBeforeTemplate ?nm (length (heap w2)))
                 \<lparr>heap = heap w2 @ [capacityBeforeTemplate (reordered ts ls t) it2], rand = stl (rand w2)\<rparr>
               = Some (m2, w2')" by (simp add: reordered_simps)
    from pt have pt2: "VMPoolNodeTemplate (reordered ts ls t) = Some (pt\<lparr>vmpool_Labels := ls\<rparr>)"
      by (simp add: reordered_simps)
    from pt ml have mp: "mset (vmpool_Labels pt) = mset ls" by (simp add: poolLabelsOf_def)
    from pt dl have dp: "distinct (map fst (vmpool_Labels pt))" by (simp add: poolLabelsOf_def)
    from processVMPoolTemplate_labels [OF q1 pt] processVMPoolTemplate_labels [OF q2 pt2] gl
      poolLabelsLoop_permuted [OF mp dp]
    show ?thesis by (simp add: buildGenericLabels_reordered nodeBeforeTemplate_def)
  next
    case (Some vt)
    from Some have s2: "VMSSNodeTemplate (reordered ts ls t) = Some (vt\<lparr>Tags := ts\<rparr>)"
      by (simp add: reordered_simps)
    from Some m have mt: "mset (Tags vt) = mset ts" by (simp add: tagsOf_def)
    from Some d have dt: "distinct (map fst (Tags vt))" by (simp add: tagsOf_def)
    from Some u have ut: "\<forall>l. length (filter (\<lambda>(k, v). tagLabelName E k = Some l) (Tags vt)) \<le> 1"
      by (simp add: tagsOf_def)
    from Some p1 have q1: "processVMSSTemplate E t ?nm (nodeBeforeTemplate ?nm (length (heap w1))) p
                 \<lparr>heap = heap w1 @ [capacityBeforeTemplate t it1], rand = stl (rand w1)\<rparr>
               = Some (m1, w1')" by simp
    from s2 p2 have q2: "processVMSSTemplate E (reordered ts ls t) ?nm
                 (nodeBeforeTemplate ?nm (length (heap w2))) p
                 \<lparr>heap = heap w2 @ [capacityBeforeTemplate (reordered ts ls t) it2], rand = stl (rand w2)\<rparr>
               = Some (m2, w2')" by simp
    from processVMSSTemplate_labels [OF q1 Some] obtain l1 where
      e1: "(if InputLabels vt \<noteq> Map.empty then Some (InputLabels vt)
            else extractLabelsFromTags E (Tags vt)) = Some l1" and
      L1: "Labels m1 =
          JoinStringMaps E
            (JoinStringMaps E (tagsToLabels (Tags vt) Map.empty)
               (fst (buildGenericLabels E t ?nm (stl (rand w1)))))
            (if p
             then predictLabels E t vt
                    (JoinStringMaps E (tagsToLabels (Tags vt) Map.empty)
                       (fst (buildGenericLabels E t ?nm (stl (rand w1)))))
                    l1
             else l1)"
      by (auto simp: nodeBeforeTemplate_def)
    from processVMSSTemplate_labels [OF q2 s2] obtain l2 where
      e2: "(if InputLabels vt \<noteq> Map.empty then Some (InputLabels vt)
            else extractLabelsFromTags E ts) = Some l2" and
      L2: "Labels m2 =
          JoinStringMaps E
            (JoinStringMaps E (tagsToLabels ts Map.empty)
               (fst (buildGenericLabels E t ?nm (stl (rand w2)))))
            (if p
             then predictLabels E t vt
                    (JoinStringMaps E (tagsToLabels ts Map.empty)
                       (fst (buildGenericLabels E t ?nm (stl (rand w2)))))
                    l2
             else l2)"
      by (auto simp: nodeBeforeTemplate_def buildGenericLabels_reordered predictLabels_reordered
          cong: if_cong)
    have l: "l2 = l1"
    proof (cases "InputLabels vt = Map.empty")
      case True
      with e1 e2 have "extractLabelsFromTags E (Tags vt) = Some l1"
        and "extractLabelsFromTags E ts = Some l2" by simp_all
      from extractLabelsFromTags_permuted [OF mt ut this] show ?thesis by simp
    next
      case False
      with e1 e2 show ?thesis by simp
    qed
    have tl: "tagsToLabels ts Map.empty = tagsToLabels (Tags vt) Map.empty"
      using tagsToLabels_permuted [OF mt dt] by simp
    show ?thesis unfolding L1 L2 l tl gl ..
  qed
  with c1 c2 show ?thesis by simp
qed

text \<open>
  C1. Two calls of \<open>buildNodeFromTemplate\<close> with the same template, node-group name and
  flags. The states in which the calls start are arbitrary: \<open>w1\<close> and \<open>w2\<close> are any two
  heaps and any two random sources. The second call can visit the maps of the template in
  other orders, as a \<open>range\<close> over a Go map does: \<open>ts\<close> is any permutation of the tags of
  a scale set, \<open>ls\<close> any permutation of the labels of a VM pool.
  \<open>BuildReadyConditions\<close> can give the second call other conditions \<open>c\<close>. The lookup of
  the instance type is taken not to depend on these orders. Then:

  \<^item> both calls have the same outcome: a node, the same error, or a panic;

  \<^item> when a node is returned, the names are equal exactly when the two draws of
    \<open>rand.Int63\<close> are;

  \<^item> the labels are equal when the draws of \<open>rand.Int63\<close> are equal, the zone indices
    drawn by \<open>rand.Intn\<close> are equal for a template with zones, the keys of the tags and
    of the pool labels are distinct (as in a map) and no two tags name the same label;

  \<^item> the taints are the same up to their order, and the same list for a scale set whose
    \<open>InputTaints\<close> is not empty and for a VM pool;

  \<^item> the capacity has the same quantity for every resource that at most one tag names.

  The addresses of the capacity maps and the conditions of the node are not compared.
\<close>

theorem buildNodeFromTemplate_two_calls:
  assumes "mset ts = mset (tagsOf template)"
    and "mset ls = mset (poolLabelsOf template)"
    and "GetInstanceTypeStatically E (reordered ts ls template) = GetInstanceTypeStatically E template"
    and "GetInstanceTypeDynamically E (reordered ts ls template) = GetInstanceTypeDynamically E template"
  shows "resultKind (buildNodeFromTemplate (E\<lparr>BuildReadyConditions := c\<rparr>) nodeGroupName
                       (reordered ts ls template) dyn pred w2)
           = resultKind (buildNodeFromTemplate E nodeGroupName template dyn pred w1)
    \<and> (resultKind (buildNodeFromTemplate E nodeGroupName template dyn pred w1) = Ok ()
        \<longrightarrow> (resultName (buildNodeFromTemplate (E\<lparr>BuildReadyConditions := c\<rparr>) nodeGroupName
                             (reordered ts ls template) dyn pred w2)
                = resultName (buildNodeFromTemplate E nodeGroupName template dyn pred w1)
              \<longleftrightarrow> shd (rand w2) mod 2 ^ 63 = shd (rand w1) mod 2 ^ 63))
    \<and> (distinct (map fst (tagsOf template))
        \<and> distinct (map fst (poolLabelsOf template))
        \<and> (\<forall>l. length (filter (\<lambda>(k, v). tagLabelName E k = Some l) (tagsOf template)) \<le> 1)
        \<and> shd (rand w2) mod 2 ^ 63 = shd (rand w1) mod 2 ^ 63
        \<and> (Zones template \<noteq> [] \<longrightarrow>
              shd (stl (rand w2)) mod length (Zones template)
                = shd (stl (rand w1)) mod length (Zones template))
        \<longrightarrow> (\<forall>k. resultLabel (buildNodeFromTemplate (E\<lparr>BuildReadyConditions := c\<rparr>) nodeGroupName
                                (reordered ts ls template) dyn pred w2) k
                  = resultLabel (buildNodeFromTemplate E nodeGroupName template dyn pred w1) k))
    \<and> map_option mset (resultTaints (buildNodeFromTemplate (E\<lparr>BuildReadyConditions := c\<rparr>)
                                       nodeGroupName (reordered ts ls template) dyn pred w2))
        = map_option mset (resultTaints (buildNodeFromTemplate E nodeGroupName template dyn pred w1))
    \<and> ((\<forall>vt. VMSSNodeTemplate template = Some vt \<longrightarrow> InputTaints vt \<noteq> [])
        \<longrightarrow> resultTaints (buildNodeFromTemplate (E\<lparr>BuildReadyConditions := c\<rparr>) nodeGroupName
                            (reordered ts ls template) dyn pred w2)
            = resultTaints (buildNodeFromTemplate E nodeGroupName template dyn pred w1))
    \<and> (\<forall>r. length (filter (\<lambda>(k, v). tagResourceName E k = Some r) (tagsOf template)) \<le> 1
          \<longrightarrow> resultCapacity (buildNodeFromTemplate (E\<lparr>BuildReadyConditions := c\<rparr>) nodeGroupName
                                (reordered ts ls template) dyn pred w2) r
              = resultCapacity (buildNodeFromTemplate E nodeGroupName template dyn pred w1) r)"
proof -
  let ?b1 = "buildNodeFromTemplate E nodeGroupName template dyn pred w1"
  let ?b2 = "buildNodeFromTemplate E nodeGroupName (reordered ts ls template) dyn pred w2"
  let ?L = "distinct (map fst (tagsOf template))
        \<and> distinct (map fst (poolLabelsOf template))
        \<and> (\<forall>l. length (filter (\<lambda>(k, v). tagLabelName E k = Some l) (tagsOf template)) \<le> 1)
        \<and> shd (rand w2) mod 2 ^ 63 = shd (rand w1) mod 2 ^ 63
        \<and> (Zones template \<noteq> [] \<longrightarrow>
              shd (stl (rand w2)) mod length (Zones template)
                = shd (stl (rand w1)) mod length (Zones template))"
  note f = fetchInstanceType_reordered [OF assms(3,4), of dyn]
  have k: "resultKind ?b2 = resultKind ?b1"
    by (rule buildNodeFromTemplate_kind_permuted [OF assms(1) f])
  have rest: "(resultKind ?b1 = Ok ()
        \<longrightarrow> (resultName ?b2 = resultName ?b1
              \<longleftrightarrow> shd (rand w2) mod 2 ^ 63 = shd (rand w1) mod 2 ^ 63))
    \<and> (?L \<longrightarrow> (\<forall>k. resultLabel ?b2 k = resultLabel ?b1 k))
    \<and> map_option mset (resultTaints ?b2) = map_option mset (resultTaints ?b1)
    \<and> ((\<forall>vt. VMSSNodeTemplate template = Some vt \<longrightarrow> InputTaints vt \<noteq> [])
        \<longrightarrow> resultTaints ?b2 = resultTaints ?b1)
    \<and> (\<forall>r. length (filter (\<lambda>(k, v). tagResourceName E k = Some r) (tagsOf template)) \<le> 1
          \<longrightarrow> resultCapacity ?b2 r = resultCapacity ?b1 r)"
  proof (cases "resultKind ?b1 = Ok ()")
    case True
    with k obtain n1 w1' n2 w2' where o1: "?b1 = Ok (n1, w1')" and o2: "?b2 = Ok (n2, w2')"
      by (auto simp: resultKind_Ok)
    have lab: "Labels n2 = Labels n1" if ?L
      using that by (intro buildNodeFromTemplate_labels_permuted [OF assms(1) o1 o2 assms(2)]) blast+
    from buildNodeFromTemplate_Ok_permuted [OF assms(1) f o1 o2] lab show ?thesis
      unfolding o1 o2
      by (simp add: resultName_def resultTaints_def resultCapacity_def resultKind_def
          resultLabel_def)
  next
    case False
    with k have "resultKind ?b2 \<noteq> Ok ()" by simp
    with False show ?thesis by (simp add: result_not_Ok resultLabel_not_Ok)
  qed
  show ?thesis unfolding buildNodeFromTemplate_env result_env resultLabel_env
    using k rest by blast
qed

text \<open>
  Two calls with the same arguments and different draws: the names differ in the number
  after \<open>-asg-\<close>, and the zone labels differ.
\<close>

theorem buildNodeFromTemplate_random_name:
  "resultName
     (buildNodeFromTemplate exampleEnv ''pool'' (exampleTemplate [] [] None) False False
        (exampleWorld [] 1 0)) = Some ''pool-asg-1''
   \<and> resultName
     (buildNodeFromTemplate exampleEnv ''pool'' (exampleTemplate [] [] None) False False
        (exampleWorld [] 2 1)) = Some ''pool-asg-2''
   \<and> resultLabel
     (buildNodeFromTemplate exampleEnv ''pool'' (exampleTemplate [] [] None) False False
        (exampleWorld [] 1 0)) LabelTopologyZone = Some ''eastus-1''
   \<and> resultLabel
     (buildNodeFromTemplate exampleEnv ''pool'' (exampleTemplate [] [] None) False False
        (exampleWorld [] 2 1)) LabelTopologyZone = Some ''eastus-2''"
  by (simp add: buildNodeFromTemplate_unfold exampleEnv_def exampleTemplate_def exampleWorld_def
      fetchInstanceType_def processVMSSTemplate_def Let_def nodeBeforeTemplate_def
      buildGenericLabels_def Intn_def extractLabelsFromTags_def
      extractAllocatableResourcesFromScaleSet_def extractTaintsFromTags_def
      itoa.simps digitChar_def ToLower_def toLowerChar_def upperLetters_def lowerLetters_def
      LabelTopologyZone_def LabelHostname_def azureDiskTopologyKey_def
      resultName_def resultLabel_def
      split: prod.splits)

lemma buildNodeFromTemplate_resultTaints_VMSS:
  assumes "fetchInstanceType E t dyn = Inr it" and "VMSSNodeTemplate t = Some vt"
    and "\<forall>(k, v) \<in> set (Tags vt). v \<noteq> None"
  shows "resultTaints (buildNodeFromTemplate E g t dyn p w)
       = (if InputTaints vt \<noteq> [] then Some (extractTaintsFromSpecString (InputTaints vt))
          else extractTaintsFromTags E (Tags vt))"
proof -
  from buildNodeFromTemplate_total_VMSS [OF assms] obtain node w' where
    ok: "buildNodeFromTemplate E g t dyn p w = Ok (node, w')" by blast
  from buildNodeFromTemplate_taints_VMSS [OF ok assms(2)] show ?thesis
    unfolding ok by (simp add: resultTaints_def)
qed

lemma buildNodeFromTemplate_resultCapacity_VMSS:
  assumes "fetchInstanceType E t dyn = Inr it" and "VMSSNodeTemplate t = Some vt"
    and "\<forall>(k, v) \<in> set (Tags vt). v \<noteq> None"
    and "extractAllocatableResourcesFromScaleSet E (Tags vt) = Some res"
    and "res r = Some q"
  shows "resultCapacity (buildNodeFromTemplate E g t dyn p w) r = Some q"
proof -
  from buildNodeFromTemplate_total_VMSS [OF assms(1-3)] obtain node w' where
    ok: "buildNodeFromTemplate E g t dyn p w = Ok (node, w')" by blast
  from buildNodeFromTemplate_capacity_VMSS [OF ok assms(2)] assms(4,5) show ?thesis
    unfolding ok by (auto simp: resultCapacity_def map_add_def)
qed

text \<open>
  The order of the range loops over the tags shows in the node. Two tags that name taints
  give the taints in the order in which the loop visits them, and of two tags that name
  the same resource after normalisation (\<open>example.com_fpga\<close> and \<open>example.com~2fpga\<close> both
  name \<open>example.com/fpga\<close>) the one visited last gives the capacity.
\<close>

lemma buildNodeFromTemplate_range_order:
  "resultTaints
     (buildNodeFromTemplate exampleEnv ''pool'' (exampleTemplate [taintTagA, taintTagB] [] None)
        False False (exampleWorld [] 1 0))
     = Some [\<lparr>Key = ''gpu'', Value = ''true'', Effect = ''NoExecute''\<rparr>,
             \<lparr>Key = ''spot'', Value = ''yes'', Effect = ''NoSchedule''\<rparr>]
   \<and> resultTaints
     (buildNodeFromTemplate exampleEnv ''pool'' (exampleTemplate [taintTagB, taintTagA] [] None)
        False False (exampleWorld [] 1 0))
     = Some [\<lparr>Key = ''spot'', Value = ''yes'', Effect = ''NoSchedule''\<rparr>,
             \<lparr>Key = ''gpu'', Value = ''true'', Effect = ''NoExecute''\<rparr>]
   \<and> resultCapacity
     (buildNodeFromTemplate exampleEnv ''pool'' (exampleTemplate [resourceTagA, resourceTagB] [] None)
        False False (exampleWorld [] 1 0)) ''example.com/fpga''
     = Some (Quantity 2 0 DecimalSI)
   \<and> resultCapacity
     (buildNodeFromTemplate exampleEnv ''pool'' (exampleTemplate [resourceTagB, resourceTagA] [] None)
        False False (exampleWorld [] 1 0)) ''example.com/fpga''
     = Some (Quantity 1 0 DecimalSI)"
proof -
  have ab: "extractTaintsFromTags exampleEnv [taintTagA, taintTagB]
      = Some [\<lparr>Key = ''gpu'', Value = ''true'', Effect = ''NoExecute''\<rparr>,
              \<lparr>Key = ''spot'', Value = ''yes'', Effect = ''NoSchedule''\<rparr>]"
    by code_simp
  have ba: "extractTaintsFromTags exampleEnv [taintTagB, taintTagA]
      = Some [\<lparr>Key = ''spot'', Value = ''yes'', Effect = ''NoSchedule''\<rparr>,
              \<lparr>Key = ''gpu'', Value = ''true'', Effect = ''NoExecute''\<rparr>]"
    by code_simp
  have rab: "(case extractAllocatableResourcesFromScaleSet exampleEnv [resourceTagA, resourceTagB] of
       Some res \<Rightarrow> res ''example.com/fpga'' = Some (Quantity 2 0 DecimalSI) | None \<Rightarrow> False)"
    by code_simp
  have rba: "(case extractAllocatableResourcesFromScaleSet exampleEnv [resourceTagB, resourceTagA] of
       Some res \<Rightarrow> res ''example.com/fpga'' = Some (Quantity 1 0 DecimalSI) | None \<Rightarrow> False)"
    by code_simp
  from rab obtain r1 where r1: "extractAllocatableResourcesFromScaleSet exampleEnv
      (Tags \<lparr>InputLabels = Map.empty, InputTaints = [], Tags = [resourceTagA, resourceTagB],
             OSDisk = None\<rparr>) = Some r1"
    and q1: "r1 ''example.com/fpga'' = Some (Quantity 2 0 DecimalSI)"
    by (auto split: option.splits)
  from rba obtain r2 where r2: "extractAllocatableResourcesFromScaleSet exampleEnv
      (Tags \<lparr>InputLabels = Map.empty, InputTaints = [], Tags = [resourceTagB, resourceTagA],
             OSDisk = None\<rparr>) = Some r2"
    and q2: "r2 ''example.com/fpga'' = Some (Quantity 1 0 DecimalSI)"
    by (auto split: option.splits)
  have 1: "resultTaints
     (buildNodeFromTemplate exampleEnv ''pool'' (exampleTemplate [taintTagA, taintTagB] [] None)
        False False (exampleWorld [] 1 0))
     = Some [\<lparr>Key = ''gpu'', Value = ''true'', Effect = ''NoExecute''\<rparr>,
             \<lparr>Key = ''spot'', Value = ''yes'', Effect = ''NoSchedule''\<rparr>]"
  proof -
    have "\<forall>(k, v) \<in> set (Tags \<lparr>InputLabels = Map.empty, InputTaints = [],
        Tags = [taintTagA, taintTagB], OSDisk = None\<rparr>). v \<noteq> None"
      by (simp add: taintTagA_def taintTagB_def)
    from buildNodeFromTemplate_resultTaints_VMSS
      [OF fetchInstanceType_example VMSSNodeTemplate_example this]
    show ?thesis by (simp add: ab)
  qed
  have 2: "resultTaints
     (buildNodeFromTemplate exampleEnv ''pool'' (exampleTemplate [taintTagB, taintTagA] [] None)
        False False (exampleWorld [] 1 0))
     = Some [\<lparr>Key = ''spot'', Value = ''yes'', Effect = ''NoSchedule''\<rparr>,
             \<lparr>Key = ''gpu'', Value = ''true'', Effect = ''NoExecute''\<rparr>]"
  proof -
    have "\<forall>(k, v) \<in> set (Tags \<lparr>InputLabels = Map.empty, InputTaints = [],
        Tags = [taintTagB, taintTagA], OSDisk = None\<rparr>). v \<noteq> None"
      by (simp add: taintTagA_def taintTagB_def)
    from buildNodeFromTemplate_resultTaints_VMSS
      [OF fetchInstanceType_example VMSSNodeTemplate_example this]
    show ?thesis by (simp add: ba)
  qed
  have 3: "resultCapacity
     (buildNodeFromTemplate exampleEnv ''pool'' (exampleTemplate [resourceTagA, resourceTagB] [] None)
        False False (exampleWorld [] 1 0)) ''example.com/fpga''
     = Some (Quantity 2 0 DecimalSI)"
    by (rule buildNodeFromTemplate_resultCapacity_VMSS
          [OF fetchInstanceType_example VMSSNodeTemplate_example _ r1 q1])
       (simp add: resourceTagA_def resourceTagB_def)
  have 4: "resultCapacity
     (buildNodeFromTemplate exampleEnv ''pool'' (exampleTemplate [resourceTagB, resourceTagA] [] None)
        False False (exampleWorld [] 1 0)) ''example.com/fpga''
     = Some (Quantity 1 0 DecimalSI)"
    by (rule buildNodeFromTemplate_resultCapacity_VMSS
          [OF fetchInstanceType_example VMSSNodeTemplate_example _ r2 q2])
       (simp add: resourceTagA_def resourceTagB_def)
  from 1 2 3 4 show ?thesis by blast
qed

lemma tagLabelName_example:
  "tagLabelName exampleEnv (fst taintTagA) = None"
  "tagLabelName exampleEnv (fst taintTagB) = None"
  "tagLabelName exampleEnv (fst (hd memoryTag)) = None"
  by code_simp+

lemma tagResourceName_example:
  "tagResourceName exampleEnv (fst taintTagA) = None"
  "tagResourceName exampleEnv (fst taintTagB) = None"
  "tagResourceName exampleEnv (fst (hd memoryTag)) = Some ResourceMemory"
  by code_simp+

lemma tags_example:
  "mset (memoryTag @ [taintTagB, taintTagA]) = mset (taintTagA # taintTagB # memoryTag)"
  "distinct (map fst (taintTagA # taintTagB # memoryTag))"
  "\<forall>(k, v) \<in> set (taintTagA # taintTagB # memoryTag). v \<noteq> None"
  "\<forall>l. length (filter (\<lambda>(k, v). tagLabelName exampleEnv k = Some l)
                (taintTagA # taintTagB # memoryTag)) \<le> 1"
  "length (filter (\<lambda>(k, v). tagResourceName exampleEnv k = Some ResourceMemory)
                (taintTagA # taintTagB # memoryTag)) \<le> 1"
proof -
  show "mset (memoryTag @ [taintTagB, taintTagA]) = mset (taintTagA # taintTagB # memoryTag)"
    by (simp add: memoryTag_def)
  show "distinct (map fst (taintTagA # taintTagB # memoryTag))"
    by (simp add: memoryTag_def taintTagA_def taintTagB_def)
  show "\<forall>(k, v) \<in> set (taintTagA # taintTagB # memoryTag). v \<noteq> None"
    by (simp add: memoryTag_def taintTagA_def taintTagB_def)
  have m: "memoryTag = [(fst (hd memoryTag), snd (hd memoryTag))]" by (simp add: memoryTag_def)
  show "\<forall>l. length (filter (\<lambda>(k, v). tagLabelName exampleEnv k = Some l)
                (taintTagA # taintTagB # memoryTag)) \<le> 1"
    by (subst m) (simp add: case_prod_beta tagLabelName_example)
  show "length (filter (\<lambda>(k, v). tagResourceName exampleEnv k = Some ResourceMemory)
                (taintTagA # taintTagB # memoryTag)) \<le> 1"
    by (subst m) (simp add: case_prod_beta tagResourceName_example)
qed

theorem buildNodeFromTemplate_two_calls_witness:
  "mset (memoryTag @ [taintTagB, taintTagA])
     = mset (tagsOf (exampleTemplate (taintTagA # taintTagB # memoryTag) [] None))
   \<and> resultKind
       (buildNodeFromTemplate exampleEnv ''pool''
          (exampleTemplate (taintTagA # taintTagB # memoryTag) [] None) False False
          (exampleWorld [] 1 0)) = Ok ()
   \<and> resultName
       (buildNodeFromTemplate (exampleEnv\<lparr>BuildReadyConditions := []\<rparr>) ''pool''
          (reordered (memoryTag @ [taintTagB, taintTagA]) []
             (exampleTemplate (taintTagA # taintTagB # memoryTag) [] None)) False False
          (exampleWorld [Map.empty] 1 2))
     = resultName
       (buildNodeFromTemplate exampleEnv ''pool''
          (exampleTemplate (taintTagA # taintTagB # memoryTag) [] None) False False
          (exampleWorld [] 1 0))
   \<and> (\<forall>k. resultLabel
       (buildNodeFromTemplate (exampleEnv\<lparr>BuildReadyConditions := []\<rparr>) ''pool''
          (reordered (memoryTag @ [taintTagB, taintTagA]) []
             (exampleTemplate (taintTagA # taintTagB # memoryTag) [] None)) False False
          (exampleWorld [Map.empty] 1 2)) k
     = resultLabel
       (buildNodeFromTemplate exampleEnv ''pool''
          (exampleTemplate (taintTagA # taintTagB # memoryTag) [] None) False False
          (exampleWorld [] 1 0)) k)
   \<and> map_option mset (resultTaints
       (buildNodeFromTemplate (exampleEnv\<lparr>BuildReadyConditions := []\<rparr>) ''pool''
          (reordered (memoryTag @ [taintTagB, taintTagA]) []
             (exampleTemplate (taintTagA # taintTagB # memoryTag) [] None)) False False
          (exampleWorld [Map.empty] 1 2)))
     = map_option mset (resultTaints
       (buildNodeFromTemplate exampleEnv ''pool''
          (exampleTemplate (taintTagA # taintTagB # memoryTag) [] None) False False
          (exampleWorld [] 1 0)))
   \<and> resultCapacity
       (buildNodeFromTemplate (exampleEnv\<lparr>BuildReadyConditions := []\<rparr>) ''pool''
          (reordered (memoryTag @ [taintTagB, taintTagA]) []
             (exampleTemplate (taintTagA # taintTagB # memoryTag) [] None)) False False
          (exampleWorld [Map.empty] 1 2)) ResourceMemory
     = resultCapacity
       (buildNodeFromTemplate exampleEnv ''pool''
          (exampleTemplate (taintTagA # taintTagB # memoryTag) [] None) False False
          (exampleWorld [] 1 0)) ResourceMemory
   \<and> resultName
       (buildNodeFromTemplate (exampleEnv\<lparr>BuildReadyConditions := []\<rparr>) ''pool''
          (reordered (memoryTag @ [taintTagB, taintTagA]) []
             (exampleTemplate (taintTagA # taintTagB # memoryTag) [] None)) False False
          (exampleWorld [Map.empty] 2 0))
     \<noteq> resultName
       (buildNodeFromTemplate exampleEnv ''pool''
          (exampleTemplate (taintTagA # taintTagB # memoryTag) [] None) False False
          (exampleWorld [] 1 0))
   \<and> resultTaints
       (buildNodeFromTemplate (exampleEnv\<lparr>BuildReadyConditions := []\<rparr>) ''pool''
          (reordered (memoryTag @ [taintTagB, taintTagA]) []
             (exampleTemplate (taintTagA # taintTagB # memoryTag) ''dedicated=foo:NoSchedule'' None))
          False False (exampleWorld [Map.empty] 1 2))
     = resultTaints
       (buildNodeFromTemplate exampleEnv ''pool''
          (exampleTemplate (taintTagA # taintTagB # memoryTag) ''dedicated=foo:NoSchedule'' None)
          False False (exampleWorld [] 1 0))
   \<and> resultKind
       (buildNodeFromTemplate exampleEnv ''pool''
          (examplePool [(''tier'', Some ''gold''), (''team'', None)]) False False
          (exampleWorld [] 1 0)) = Ok ()
   \<and> (\<forall>k. resultLabel
       (buildNodeFromTemplate (exampleEnv\<lparr>BuildReadyConditions := []\<rparr>) ''pool''
          (reordered [] [(''team'', None), (''tier'', Some ''gold'')]
             (examplePool [(''tier'', Some ''gold''), (''team'', None)])) False False
          (exampleWorld [Map.empty] 1 2)) k
     = resultLabel
       (buildNodeFromTemplate exampleEnv ''pool''
          (examplePool [(''tier'', Some ''gold''), (''team'', None)]) False False
          (exampleWorld [] 1 0)) k)"
proof -
  let ?ts = "memoryTag @ [taintTagB, taintTagA]"
  let ?p = "examplePool [(''tier'', Some ''gold''), (''team'', None)]"
  let ?ls = "[(''team'', None), (''tier'', Some ''gold'')] :: tags"
  let ?t = "exampleTemplate (taintTagA # taintTagB # memoryTag) [] None"
  let ?u = "exampleTemplate (taintTagA # taintTagB # memoryTag) ''dedicated=foo:NoSchedule'' None"
  have tg: "tagsOf (exampleTemplate (taintTagA # taintTagB # memoryTag) i None)
      = taintTagA # taintTagB # memoryTag" for i
    by (simp add: tagsOf_def exampleTemplate_def)
  have m: "mset ?ts = mset (tagsOf (exampleTemplate (taintTagA # taintTagB # memoryTag) i None))" for i
    unfolding tg by (rule tags_example(1))
  have pl: "poolLabelsOf (exampleTemplate (taintTagA # taintTagB # memoryTag) i None) = []" for i
    by (simp add: poolLabelsOf_def exampleTemplate_def)
  have ml: "mset [] = mset (poolLabelsOf (exampleTemplate (taintTagA # taintTagB # memoryTag) i None))"
    for i
    unfolding pl by simp
  have s: "GetInstanceTypeStatically exampleEnv
        (reordered ?ts [] (exampleTemplate (taintTagA # taintTagB # memoryTag) i None))
      = GetInstanceTypeStatically exampleEnv
          (exampleTemplate (taintTagA # taintTagB # memoryTag) i None)" for i
    by (simp add: exampleEnv_def reordered_def)
  have d: "GetInstanceTypeDynamically exampleEnv
        (reordered ?ts [] (exampleTemplate (taintTagA # taintTagB # memoryTag) i None))
      = GetInstanceTypeDynamically exampleEnv
          (exampleTemplate (taintTagA # taintTagB # memoryTag) i None)" for i
    by (simp add: exampleEnv_def)
  have z: "Zones ?t = [''1'', ''2'']" by (simp add: exampleTemplate_def)
  have v: "VMSSNodeTemplate ?u \<noteq> None" "\<forall>vt. VMSSNodeTemplate ?u = Some vt \<longrightarrow> InputTaints vt \<noteq> []"
    by (simp_all add: exampleTemplate_def)
  have nn: "\<forall>(k, v) \<in> set (Tags \<lparr>InputLabels = Map.empty, InputTaints = [],
      Tags = taintTagA # taintTagB # memoryTag, OSDisk = None\<rparr>). v \<noteq> None"
    using tags_example(3) by simp
  from buildNodeFromTemplate_total_VMSS [OF fetchInstanceType_example VMSSNodeTemplate_example nn]
  have k: "resultKind (buildNodeFromTemplate exampleEnv ''pool'' ?t False False
      (exampleWorld [] 1 0)) = Ok ()"
    unfolding resultKind_Ok by blast
  note a = buildNodeFromTemplate_two_calls [where E = exampleEnv and ts = ?ts and ls = "[]" and template = ?t
      and c = "[]" and nodeGroupName = "''pool''" and dyn = False and pred = False
      and ?w1.0 = "exampleWorld [] 1 0" and ?w2.0 = "exampleWorld [Map.empty] 1 2", OF m ml s d]
  note b = buildNodeFromTemplate_two_calls [where E = exampleEnv and ts = ?ts and ls = "[]" and template = ?t
      and c = "[]" and nodeGroupName = "''pool''" and dyn = False and pred = False
      and ?w1.0 = "exampleWorld [] 1 0" and ?w2.0 = "exampleWorld [Map.empty] 2 0", OF m ml s d]
  note c = buildNodeFromTemplate_two_calls [where E = exampleEnv and ts = ?ts and ls = "[]" and template = ?u
      and c = "[]" and nodeGroupName = "''pool''" and dyn = False and pred = False
      and ?w1.0 = "exampleWorld [] 1 0" and ?w2.0 = "exampleWorld [Map.empty] 1 2", OF m ml s d]
  have r1: "shd (rand (exampleWorld [Map.empty] 1 2)) mod 2 ^ 63
      = shd (rand (exampleWorld [] 1 0)) mod 2 ^ 63"
    by (simp add: exampleWorld_def)
  have r2: "shd (stl (rand (exampleWorld [Map.empty] 1 2))) mod length (Zones ?t)
      = shd (stl (rand (exampleWorld [] 1 0))) mod length (Zones ?t)"
    unfolding z by (simp add: exampleWorld_def numeral_2_eq_2 [symmetric])
  have r3: "shd (rand (exampleWorld [Map.empty] 2 0)) mod 2 ^ 63
      \<noteq> shd (rand (exampleWorld [] 1 0)) mod 2 ^ 63"
    by (simp add: exampleWorld_def)
  from a k r1 have 1: "resultName
       (buildNodeFromTemplate (exampleEnv\<lparr>BuildReadyConditions := []\<rparr>) ''pool''
          (reordered ?ts [] ?t) False False (exampleWorld [Map.empty] 1 2))
     = resultName (buildNodeFromTemplate exampleEnv ''pool'' ?t False False (exampleWorld [] 1 0))"
    by blast
  have dpl: "distinct (map fst (poolLabelsOf ?t))" by (simp add: pl)
  from a r1 r2 tags_example(2,4) dpl have 2: "\<forall>k. resultLabel
       (buildNodeFromTemplate (exampleEnv\<lparr>BuildReadyConditions := []\<rparr>) ''pool''
          (reordered ?ts [] ?t) False False (exampleWorld [Map.empty] 1 2)) k
     = resultLabel (buildNodeFromTemplate exampleEnv ''pool'' ?t False False (exampleWorld [] 1 0)) k"
    unfolding tg by blast
  from a have 3: "map_option mset (resultTaints
       (buildNodeFromTemplate (exampleEnv\<lparr>BuildReadyConditions := []\<rparr>) ''pool''
          (reordered ?ts [] ?t) False False (exampleWorld [Map.empty] 1 2)))
     = map_option mset (resultTaints
       (buildNodeFromTemplate exampleEnv ''pool'' ?t False False (exampleWorld [] 1 0)))"
    by blast
  from a tags_example(5) have 4: "resultCapacity
       (buildNodeFromTemplate (exampleEnv\<lparr>BuildReadyConditions := []\<rparr>) ''pool''
          (reordered ?ts [] ?t) False False (exampleWorld [Map.empty] 1 2)) ResourceMemory
     = resultCapacity
       (buildNodeFromTemplate exampleEnv ''pool'' ?t False False (exampleWorld [] 1 0))
       ResourceMemory"
    unfolding tg by blast
  from b k r3 have 5: "resultName
       (buildNodeFromTemplate (exampleEnv\<lparr>BuildReadyConditions := []\<rparr>) ''pool''
          (reordered ?ts [] ?t) False False (exampleWorld [Map.empty] 2 0))
     \<noteq> resultName (buildNodeFromTemplate exampleEnv ''pool'' ?t False False (exampleWorld [] 1 0))"
    by blast
  from c v have 6: "resultTaints
       (buildNodeFromTemplate (exampleEnv\<lparr>BuildReadyConditions := []\<rparr>) ''pool''
          (reordered ?ts [] ?u) False False (exampleWorld [Map.empty] 1 2))
     = resultTaints (buildNodeFromTemplate exampleEnv ''pool'' ?u False False (exampleWorld [] 1 0))"
    by blast
  have pf: "fetchInstanceType exampleEnv ?p False = Inr \<lparr>VCPU = 2, GPU = 0, MemoryMb = 7168\<rparr>"
    by (simp add: fetchInstanceType_def exampleEnv_def examplePool_def)
  have pv: "VMSSNodeTemplate ?p = None"
    "VMPoolNodeTemplate ?p
       = Some \<lparr>AgentPoolName = ''pool'', Taints = [], vmpool_Labels = [(''tier'', Some ''gold''), (''team'', None)],
               OSDiskType = None\<rparr>"
    by (simp_all add: examplePool_def)
  from buildNodeFromTemplate_total_VMPool [OF pf pv]
  have 7: "resultKind (buildNodeFromTemplate exampleEnv ''pool'' ?p False False
      (exampleWorld [] 1 0)) = Ok ()"
    unfolding resultKind_Ok by blast
  have pm: "mset [] = mset (tagsOf ?p)" "mset ?ls = mset (poolLabelsOf ?p)"
    by (simp_all add: tagsOf_def poolLabelsOf_def examplePool_def)
  have ps: "GetInstanceTypeStatically exampleEnv (reordered [] ?ls ?p)
      = GetInstanceTypeStatically exampleEnv ?p"
    "GetInstanceTypeDynamically exampleEnv (reordered [] ?ls ?p)
      = GetInstanceTypeDynamically exampleEnv ?p"
    by (simp_all add: exampleEnv_def reordered_def)
  have pd: "distinct (map fst (tagsOf ?p))" "distinct (map fst (poolLabelsOf ?p))"
    "\<forall>l. length (filter (\<lambda>(k, v). tagLabelName exampleEnv k = Some l) (tagsOf ?p)) \<le> 1"
    "Zones ?p = []"
    by (simp_all add: tagsOf_def poolLabelsOf_def examplePool_def)
  note e = buildNodeFromTemplate_two_calls [where E = exampleEnv and ts = "[]" and ls = ?ls
      and template = ?p and c = "[]" and nodeGroupName = "''pool''" and dyn = False and pred = False
      and ?w1.0 = "exampleWorld [] 1 0" and ?w2.0 = "exampleWorld [Map.empty] 1 2", OF pm ps]
  from e r1 pd have 8: "\<forall>k. resultLabel
       (buildNodeFromTemplate (exampleEnv\<lparr>BuildReadyConditions := []\<rparr>) ''pool''
          (reordered [] ?ls ?p) False False (exampleWorld [Map.empty] 1 2)) k
     = resultLabel (buildNodeFromTemplate exampleEnv ''pool'' ?p False False (exampleWorld [] 1 0)) k"
    by blast
  from m [of "[]"] k 1 2 3 4 5 6 7 8 show ?thesis by blast
qed

end
